theory Spec2Isabelle
  imports Complex_Main "HOL-Library.Word" "HOL-Library.Log_Nat"
begin

unbundle bit_operations_syntax

section \<open>Buffers, errors and JavaScript values\<close>

text \<open>
  An \<^verbatim>\<open>ArrayBuffer\<close> is a list of bytes. A decoder either returns its value or throws:
  the result type is \<open>error + 'a\<close>, with \<open>Inl\<close> for the exception. \<open>Error msg\<close> stands for
  \<^verbatim>\<open>throw new Error(msg)\<close> of the source (the constant part of the message), and
  \<open>RangeError\<close> for the exception the runtime raises when a \<^verbatim>\<open>DataView\<close> is read
  outside its buffer or a typed array is given an invalid length, \<open>TypeError\<close> for the
  one it raises when an element of \<^verbatim>\<open>undefined\<close> is assigned.
\<close>

type_synonym byte = "8 word"

datatype error = Error string | RangeError | TypeError

definition err_bind :: "error + 'a \<Rightarrow> ('a \<Rightarrow> error + 'b) \<Rightarrow> error + 'b" where
  "err_bind r f = (case r of Inl e \<Rightarrow> Inl e | Inr v \<Rightarrow> f v)"

text \<open>
  A JavaScript number. Finite values are exact rationals: the model computes without
  rounding, and so agrees with the program wherever no operation rounds (every value
  evaluated below is a dyadic rational of a few bits). The special values are kept,
  because the decoders branch on them.
\<close>

datatype jsnum = Fin rat | NegZero | PosInf | NegInf | NaN

definition isFinite :: "jsnum \<Rightarrow> bool" where
  "isFinite x = (case x of Fin r \<Rightarrow> True | NegZero \<Rightarrow> True | _ \<Rightarrow> False)"

definition isNaN :: "jsnum \<Rightarrow> bool" where
  "isNaN x = (case x of NaN \<Rightarrow> True | _ \<Rightarrow> False)"

text \<open>The value of an IEEE-754 binary32 bit pattern (sign 1 bit, exponent 8, fraction 23).\<close>

definition f32_of_bits :: "nat \<Rightarrow> jsnum" where
  "f32_of_bits v =
     (let neg = (v div 2 ^ 31 = 1); e = (v div 2 ^ 23) mod 256; m = v mod 2 ^ 23;
          sg = (if neg then - 1 else 1 :: rat)
      in if e = 255 then (if m = 0 then (if neg then NegInf else PosInf) else NaN)
         else if e = 0 then
           (if m = 0 then (if neg then NegZero else Fin 0)
            else Fin (sg * of_nat m / 2 ^ 149))
         else if 150 \<le> e then Fin (sg * of_nat (2 ^ 23 + m) * 2 ^ (e - 150))
         else Fin (sg * of_nat (2 ^ 23 + m) / 2 ^ (150 - e)))"

subsection \<open>DataView\<close>

fun le_val :: "byte list \<Rightarrow> nat" where
  "le_val [] = 0"
| "le_val (b # bs) = unat b + 256 * le_val bs"

definition be_val :: "byte list \<Rightarrow> nat" where
  "be_val bs = le_val (rev bs)"

definition dv_uint :: "nat \<Rightarrow> byte list \<Rightarrow> nat \<Rightarrow> bool \<Rightarrow> error + nat" where
  "dv_uint n buf off little =
     (if off + n \<le> length buf
      then Inr ((if little then le_val else be_val) (take n (drop off buf)))
      else Inl RangeError)"

definition to_signed :: "nat \<Rightarrow> nat \<Rightarrow> int" where
  "to_signed bits v = (if v < 2 ^ (bits - 1) then int v else int v - 2 ^ bits)"

definition getUint8 :: "byte list \<Rightarrow> nat \<Rightarrow> error + nat" where
  "getUint8 buf off = dv_uint 1 buf off True"

definition getInt8 :: "byte list \<Rightarrow> nat \<Rightarrow> error + int" where
  "getInt8 buf off = err_bind (dv_uint 1 buf off True) (\<lambda>v. Inr (to_signed 8 v))"

definition getUint16 :: "byte list \<Rightarrow> nat \<Rightarrow> bool \<Rightarrow> error + nat" where
  "getUint16 buf off little = dv_uint 2 buf off little"

definition getInt16 :: "byte list \<Rightarrow> nat \<Rightarrow> bool \<Rightarrow> error + int" where
  "getInt16 buf off little = err_bind (dv_uint 2 buf off little) (\<lambda>v. Inr (to_signed 16 v))"

definition getUint32 :: "byte list \<Rightarrow> nat \<Rightarrow> bool \<Rightarrow> error + nat" where
  "getUint32 buf off little = dv_uint 4 buf off little"

definition getInt32 :: "byte list \<Rightarrow> nat \<Rightarrow> bool \<Rightarrow> error + int" where
  "getInt32 buf off little = err_bind (dv_uint 4 buf off little) (\<lambda>v. Inr (to_signed 32 v))"

definition getBigUint64 :: "byte list \<Rightarrow> nat \<Rightarrow> bool \<Rightarrow> error + nat" where
  "getBigUint64 buf off little = dv_uint 8 buf off little"

definition getFloat32 :: "byte list \<Rightarrow> nat \<Rightarrow> bool \<Rightarrow> error + jsnum" where
  "getFloat32 buf off little = err_bind (dv_uint 4 buf off little) (\<lambda>v. Inr (f32_of_bits v))"

subsection \<open>Strings\<close>

text \<open>
  A string decoded from the buffer is kept as its bytes, and a literal of the source is
  turned into bytes by \<open>ascii\<close>. The tests the decoders make (substring, prefix, split
  at a blank) look for ASCII text only, and on that the bytes and the decoded string
  agree.
\<close>

definition ascii :: "string \<Rightarrow> byte list" where
  "ascii s = map of_char s"

definition startsWith :: "byte list \<Rightarrow> byte list \<Rightarrow> bool" where
  "startsWith s pat = (take (length pat) s = pat)"


fun str_includes :: "byte list \<Rightarrow> byte list \<Rightarrow> bool" where
  "str_includes [] pat = (pat = [])"
| "str_includes (c # cs) pat = (startsWith (c # cs) pat \<or> str_includes cs pat)"

definition toLowerCase :: "byte list \<Rightarrow> byte list" where
  "toLowerCase s = map (\<lambda>c. if 0x41 \<le> c \<and> c \<le> 0x5A then c + 0x20 else c) s"

text \<open>\<^verbatim>\<open>s.split(sep)\<close> for a one-character separator: never the empty array.\<close>

fun split_on :: "byte \<Rightarrow> byte list \<Rightarrow> byte list list" where
  "split_on sep [] = [[]]"
| "split_on sep (c # cs) =
     (if c = sep then [] # split_on sep cs
      else (case split_on sep cs of p # ps \<Rightarrow> (c # p) # ps | [] \<Rightarrow> [[c]]))"

definition is_space :: "byte \<Rightarrow> bool" where
  "is_space c = (c = 0x20 \<or> (0x09 \<le> c \<and> c \<le> 0x0D))"

definition trim :: "byte list \<Rightarrow> byte list" where
  "trim s = rev (dropWhile is_space (rev (dropWhile is_space s)))"

text \<open>
  \<^verbatim>\<open>parseInt(s)\<close>: blanks, a sign, \<^verbatim>\<open>0x\<close> for radix 16, then the longest run of
  digits; \<open>None\<close> is \<^verbatim>\<open>NaN\<close> (no digit). The integer is exact (the program's is a
  double, exact below \<open>2 ^ 53\<close>).
\<close>

type_synonym jsint = "int option"

definition digit_val :: "byte \<Rightarrow> nat option" where
  "digit_val c =
     (if 0x30 \<le> c \<and> c \<le> 0x39 then Some (unat c - 0x30)
      else if 0x61 \<le> c \<and> c \<le> 0x66 then Some (unat c - 0x61 + 10)
      else if 0x41 \<le> c \<and> c \<le> 0x46 then Some (unat c - 0x41 + 10)
      else None)"

definition is_digit :: "nat \<Rightarrow> byte \<Rightarrow> bool" where
  "is_digit radix c = (case digit_val c of None \<Rightarrow> False | Some d \<Rightarrow> d < radix)"

definition digits_val :: "nat \<Rightarrow> byte list \<Rightarrow> nat" where
  "digits_val radix ds = foldl (\<lambda>acc c. acc * radix + the (digit_val c)) 0 ds"

definition parseInt :: "byte list \<Rightarrow> jsint" where
  "parseInt s =
     (let s1 = dropWhile is_space s;
          neg = startsWith s1 (ascii ''-'');
          s2 = (if neg \<or> startsWith s1 (ascii ''+'') then drop 1 s1 else s1);
          hex = (startsWith s2 (ascii ''0x'') \<or> startsWith s2 (ascii ''0X''));
          radix = (if hex then 16 else 10);
          ds = takeWhile (is_digit radix) (if hex then drop 2 s2 else s2)
      in if ds = [] then None
         else Some ((if neg then - 1 else 1) * int (digits_val radix ds)))"

section \<open>The tractogram\<close>

text \<open>
  \<^verbatim>\<open>pts\<close> is a \<^verbatim>\<open>Float32Array\<close> and \<^verbatim>\<open>offsetPt0\<close> a \<^verbatim>\<open>Uint32Array\<close>. A typed array
  has a fixed length: a write past its end is dropped, which is what \<open>xs[i := v]\<close> does,
  and \<^verbatim>\<open>a.slice(0, n)\<close> is \<open>take n a\<close>.
\<close>

record tractogram =
  pts :: "jsnum list"
  offsetPt0 :: "32 word list"

section \<open>readTCK\<close>

function scan_while :: "(byte \<Rightarrow> bool) \<Rightarrow> byte list \<Rightarrow> nat \<Rightarrow> nat" where
  "scan_while p bytes pos =
     (if pos < length bytes \<and> p (bytes ! pos) then scan_while p bytes (pos + 1) else pos)"
  by pat_completeness auto
termination
  by (relation "measure (\<lambda>(p, bytes, pos). length bytes - pos)") auto

declare scan_while.simps [simp del]

text \<open>\<^verbatim>\<open>buffer.slice(a, b)\<close> for \<open>0 \<le> a\<close>, \<open>0 \<le> b\<close>: both ends are clamped to the length.\<close>

definition slice :: "'a list \<Rightarrow> nat \<Rightarrow> nat \<Rightarrow> 'a list" where
  "slice xs a b = take (b - a) (drop a xs)"

text \<open>
  \<^verbatim>\<open>readStr\<close> of \<^verbatim>\<open>readTCK\<close>: skip blank lines, read to the next newline, step over it.
  It returns the line and the new \<^verbatim>\<open>pos\<close>. (After \<^verbatim>\<open>pos++\<close> the test
  \<^verbatim>\<open>pos - startPos < 1\<close> is never true.)
\<close>

definition readStr :: "byte list \<Rightarrow> nat \<Rightarrow> byte list \<times> nat" where
  "readStr bytes pos0 =
     (let startPos = scan_while (\<lambda>b. b = 10) bytes pos0;
          pos = scan_while (\<lambda>b. b \<noteq> 10) bytes startPos + 1
      in (if pos - startPos < 1 then [] else slice bytes startPos (pos - 1), pos))"

lemma scan_while_ge: "pos \<le> scan_while p bytes pos"
proof (induction p bytes pos rule: scan_while.induct)
  case (1 p bytes pos)
  show ?case
  proof (cases "pos < length bytes \<and> p (bytes ! pos)")
    case True
    from 1 [OF True] have "pos \<le> scan_while p bytes (pos + 1)" by simp
    with True show ?thesis by (subst scan_while.simps) simp
  next
    case False
    then show ?thesis by (subst scan_while.simps) auto
  qed
qed

lemma readStr_advances: "readStr bytes pos = (line, pos') \<Longrightarrow> pos < pos'"
proof -
  assume a: "readStr bytes pos = (line, pos')"
  let ?s = "scan_while (\<lambda>b. b = 10) bytes pos"
  have "pos \<le> ?s" by (rule scan_while_ge)
  moreover have "?s \<le> scan_while (\<lambda>b. b \<noteq> 10) bytes ?s" by (rule scan_while_ge)
  moreover from a have "pos' = scan_while (\<lambda>b. b \<noteq> 10) bytes ?s + 1"
    by (simp add: readStr_def Let_def)
  ultimately show ?thesis by simp
qed

text \<open>
  The header loop: \<^verbatim>\<open>while (pos < len && !line.includes('END'))\<close>. It returns
  \<^verbatim>\<open>offset\<close>, which starts at \<open>-1\<close>.
\<close>

function tck_header :: "byte list \<Rightarrow> nat \<Rightarrow> byte list \<Rightarrow> jsint \<Rightarrow> jsint" where
  "tck_header bytes pos line offset =
     (if pos < length bytes \<and> \<not> str_includes line (ascii ''END'') then
        (case readStr bytes pos of (line', pos') \<Rightarrow>
           tck_header bytes pos' line'
             (if startsWith (toLowerCase line') (ascii ''file:'')
              then parseInt (last (split_on 0x20 line')) else offset))
      else offset)"
  by pat_completeness auto
termination
  by (relation "measure (\<lambda>(bytes, pos, line, offset). length bytes - pos)")
     (auto dest!: readStr_advances [OF sym])

declare tck_header.simps [simp del]

text \<open>
  The state of the body loop of \<^verbatim>\<open>readTCK\<close>. The two arrays are allocated before the
  loop with a fixed length and trimmed after it.
\<close>

record tck_state =
  t_pos :: nat
  t_npt :: nat
  t_noffset :: nat
  t_npt3 :: nat
  t_pts :: "jsnum list"
  t_offsetPt0 :: "32 word list"

lemma err_bind_cong [fundef_cong]:
  "r = r' \<Longrightarrow> (\<And>v. r' = Inr v \<Longrightarrow> f v = f' v) \<Longrightarrow> err_bind r f = err_bind r' f'"
  by (auto simp: err_bind_def split: sum.splits)

function tck_body :: "byte list \<Rightarrow> tck_state \<Rightarrow> error + tck_state" where
  "tck_body buffer st =
     (if t_pos st + 12 < length buffer then
        err_bind (getFloat32 buffer (t_pos st) True) (\<lambda>ptx.
        err_bind (getFloat32 buffer (t_pos st + 4) True) (\<lambda>pty.
        err_bind (getFloat32 buffer (t_pos st + 8) True) (\<lambda>ptz.
          if \<not> isFinite ptx then
            (let st' = st\<lparr>t_pos := t_pos st + 12,
                          t_offsetPt0 := (t_offsetPt0 st)[t_noffset st := of_nat (t_npt st)],
                          t_noffset := t_noffset st + 1\<rparr>
             in if \<not> isNaN ptx then Inr st' else tck_body buffer st')
          else
            tck_body buffer
              (st\<lparr>t_pos := t_pos st + 12,
                  t_pts := (t_pts st)[t_npt3 st := ptx, t_npt3 st + 1 := pty,
                                      t_npt3 st + 2 := ptz],
                  t_npt3 := t_npt3 st + 3,
                  t_npt := t_npt st + 1\<rparr>))))
      else Inr st)"
  by pat_completeness auto
termination
  by (relation "measure (\<lambda>(buffer, st). length buffer - t_pos st)") auto

declare tck_body.simps [simp del]

definition readTCK :: "byte list \<Rightarrow> error + tractogram" where
  "readTCK buffer =
     (let len = length buffer in
      if len < 20 then Inl (Error ''File too small to be TCK: bytes = '')
      else
        (case readStr buffer 0 of (line, pos) \<Rightarrow>
           if \<not> str_includes line (ascii ''mrtrix tracks'') then Inl (Error ''Not a valid TCK file'')
           else
             (case tck_header buffer pos line (Some (- 1)) of
                Some offset \<Rightarrow>
                  if offset < 20 then Inl (Error ''Not a valid TCK file (missing file offset)'')
                  else
                    err_bind
                      (tck_body buffer
                         \<lparr>t_pos = nat offset, t_npt = 0, t_noffset = 0, t_npt3 = 0,
                          t_pts = replicate (len div 4) (Fin 0),
                          t_offsetPt0 = (replicate (len div (4 * 4)) 0)[0 := 0]\<rparr>)
                      (\<lambda>st. Inr \<lparr>pts = take (t_npt3 st) (t_pts st),
                                 offsetPt0 = take (t_noffset st) (t_offsetPt0 st)\<rparr>)
              | None \<Rightarrow>
                  Inr \<lparr>pts = take 0 (replicate (len div 4) (Fin 0)),
                       offsetPt0 = take 0 ((replicate (len div (4 * 4)) 0)[0 := 0])\<rparr>)))"


section \<open>The archive reader (class Zip)\<close>

record entry =
  signature :: "byte list"
  version :: nat
  generalPurpose :: nat
  compressionMethod :: nat
  lastModifiedTime :: nat
  lastModifiedDate :: nat
  crc :: nat
  compressedSize :: nat
  uncompressedSize :: nat
  fileNameLength :: nat
  extraLength :: nat
  fileName :: "byte list"
  extra :: "byte list"
  startsAt :: "nat option"

record central_directory_entry =
  versionCreated :: nat
  versionNeeded :: nat
  cd_fileNameLength :: nat
  cd_extraLength :: nat
  fileCommentLength :: nat
  diskNumber :: nat
  internalAttributes :: nat
  externalAttributes :: nat
  cd_offset :: nat
  comments :: "byte list"

record end_of_central_directory =
  numberOfDisks :: nat
  centralDirectoryStartDisk :: nat
  numberCentralDirectoryRecordsOnThisDisk :: nat
  numberCentralDirectoryRecords :: nat
  centralDirectorySize :: nat
  centralDirectoryOffset :: nat
  commentLength :: nat
  comment :: "byte list"

text \<open>
  \<^verbatim>\<open>readString(offset, length)\<close> reads \<^verbatim>\<open>length\<close> bytes one by one with \<^verbatim>\<open>getUint8\<close>:
  no read, and no exception, when \<^verbatim>\<open>length\<close> is 0.
\<close>

definition readString :: "byte list \<Rightarrow> nat \<Rightarrow> nat \<Rightarrow> error + byte list" where
  "readString dv off n =
     (if n = 0 then Inr []
      else if off + n \<le> length dv then Inr (take n (drop off dv))
      else Inl RangeError)"

text \<open>
  The search of the extra field for the ZIP64 record (tag 1) in \<^verbatim>\<open>readLocalFile\<close>. It
  returns \<^verbatim>\<open>(uncompressedSize, compressedSize)\<close> when the record is found and \<open>None\<close>
  when the loop ends without it.
\<close>

function zip64_sizes :: "byte list \<Rightarrow> nat \<Rightarrow> nat \<Rightarrow> error + (nat \<times> nat) option" where
  "zip64_sizes dv zip64Offset limit =
     (if zip64Offset < limit then
        err_bind (getUint16 dv zip64Offset True) (\<lambda>fieldSignature.
        err_bind (getUint16 dv (zip64Offset + 2) True) (\<lambda>fieldLength.
          if fieldSignature = 0x0001 then
            (if fieldLength \<ge> 16 then
               err_bind (getBigUint64 dv (zip64Offset + 4) True) (\<lambda>uncompressedSize.
               err_bind (getBigUint64 dv (zip64Offset + 4 + 8) True) (\<lambda>compressedSize.
                 Inr (Some (uncompressedSize, compressedSize))))
             else Inl (Error ''ZIP64 extra field found but is too small''))
          else zip64_sizes dv (zip64Offset + 4 + fieldLength) limit))
      else Inr None)"
  by pat_completeness auto
termination
  by (relation "measure (\<lambda>(dv, zip64Offset, limit). limit - zip64Offset)") auto

declare zip64_sizes.simps [simp del]

definition readLocalFile :: "byte list \<Rightarrow> nat \<Rightarrow> error + entry" where
  "readLocalFile dv off =
     err_bind (getUint32 dv (off + 18) True) (\<lambda>compressedSize0.
     err_bind (getUint32 dv (off + 22) True) (\<lambda>uncompressedSize0.
     err_bind (getUint16 dv (off + 26) True) (\<lambda>fileNameLength.
     err_bind (getUint16 dv (off + 28) True) (\<lambda>extraLength.
     let extraOffset = off + 30 + fileNameLength in
     err_bind (readString dv extraOffset extraLength) (\<lambda>extra.
     err_bind
       (if compressedSize0 = 0xffffffff \<and> uncompressedSize0 = 0xffffffff then
          err_bind (zip64_sizes dv extraOffset (extraOffset + extraLength - 4)) (\<lambda>found.
            case found of
              None \<Rightarrow> Inl (Error ''ZIP64 format missing extra field with signature 0x0001.'')
            | Some (usize, csize) \<Rightarrow> Inr (csize, usize))
        else Inr (compressedSize0, uncompressedSize0))
       (\<lambda>(csize, usize).
     err_bind (readString dv off 4) (\<lambda>signature.
     err_bind (getUint16 dv (off + 4) True) (\<lambda>version.
     err_bind (getUint16 dv (off + 6) True) (\<lambda>generalPurpose.
     err_bind (getUint16 dv (off + 8) True) (\<lambda>compressionMethod.
     err_bind (getUint16 dv (off + 10) True) (\<lambda>lastModifiedTime.
     err_bind (getUint16 dv (off + 12) True) (\<lambda>lastModifiedDate.
     err_bind (getUint32 dv (off + 14) True) (\<lambda>crc.
     err_bind (readString dv (off + 30) fileNameLength) (\<lambda>fileName.
     err_bind (readString dv (off + 30 + fileNameLength) extraLength) (\<lambda>extra'.
       Inr \<lparr>signature = signature, version = version, generalPurpose = generalPurpose,
            compressionMethod = compressionMethod, lastModifiedTime = lastModifiedTime,
            lastModifiedDate = lastModifiedDate, crc = crc,
            compressedSize = csize, uncompressedSize = usize,
            fileNameLength = fileNameLength, extraLength = extraLength,
            fileName = fileName, extra = extra', startsAt = None\<rparr>)))))))))))))))"

definition readCentralDirectory :: "byte list \<Rightarrow> nat \<Rightarrow> error + central_directory_entry" where
  "readCentralDirectory dv off =
     err_bind (getUint16 dv (off + 4) True) (\<lambda>versionCreated.
     err_bind (getUint16 dv (off + 6) True) (\<lambda>versionNeeded.
     err_bind (getUint16 dv (off + 28) True) (\<lambda>fileNameLength.
     err_bind (getUint16 dv (off + 30) True) (\<lambda>extraLength.
     err_bind (getUint16 dv (off + 32) True) (\<lambda>fileCommentLength.
     err_bind (getUint16 dv (off + 34) True) (\<lambda>diskNumber.
     err_bind (getUint16 dv (off + 36) True) (\<lambda>internalAttributes.
     err_bind (getUint32 dv (off + 38) True) (\<lambda>externalAttributes.
     err_bind (getUint32 dv (off + 42) True) (\<lambda>offset.
     err_bind (getUint16 dv (off + 32) True) (\<lambda>n.
     err_bind (readString dv (off + 46) n) (\<lambda>comments.
       Inr \<lparr>versionCreated = versionCreated, versionNeeded = versionNeeded,
            cd_fileNameLength = fileNameLength, cd_extraLength = extraLength,
            fileCommentLength = fileCommentLength, diskNumber = diskNumber,
            internalAttributes = internalAttributes,
            externalAttributes = externalAttributes, cd_offset = offset,
            comments = comments\<rparr>)))))))))))"

definition readEndCentralDirectory :: "byte list \<Rightarrow> nat \<Rightarrow> error + end_of_central_directory" where
  "readEndCentralDirectory dv off =
     err_bind (getUint16 dv (off + 20) True) (\<lambda>commentLength.
     err_bind (getUint16 dv (off + 4) True) (\<lambda>numberOfDisks.
     err_bind (getUint16 dv (off + 6) True) (\<lambda>centralDirectoryStartDisk.
     err_bind (getUint16 dv (off + 8) True) (\<lambda>onThisDisk.
     err_bind (getUint16 dv (off + 10) True) (\<lambda>numberCentralDirectoryRecords.
     err_bind (getUint32 dv (off + 12) True) (\<lambda>centralDirectorySize.
     err_bind (getUint32 dv (off + 16) True) (\<lambda>centralDirectoryOffset.
     err_bind (readString dv (off + 22) commentLength) (\<lambda>comment.
       Inr \<lparr>numberOfDisks = numberOfDisks,
            centralDirectoryStartDisk = centralDirectoryStartDisk,
            numberCentralDirectoryRecordsOnThisDisk = onThisDisk,
            numberCentralDirectoryRecords = numberCentralDirectoryRecords,
            centralDirectorySize = centralDirectorySize,
            centralDirectoryOffset = centralDirectoryOffset,
            commentLength = commentLength, comment = comment\<rparr>))))))))"

definition readEndCentralDirectory64 :: "byte list \<Rightarrow> nat \<Rightarrow> error + end_of_central_directory" where
  "readEndCentralDirectory64 dv off =
     err_bind (getBigUint64 dv (off + 0) True) (\<lambda>commentLength.
     err_bind (getUint32 dv (off + 16) True) (\<lambda>numberOfDisks.
     err_bind (getUint32 dv (off + 20) True) (\<lambda>centralDirectoryStartDisk.
     err_bind (getBigUint64 dv (off + 24) True) (\<lambda>onThisDisk.
     err_bind (getBigUint64 dv (off + 32) True) (\<lambda>numberCentralDirectoryRecords.
     err_bind (getBigUint64 dv (off + 40) True) (\<lambda>centralDirectorySize.
     err_bind (getBigUint64 dv (off + 48) True) (\<lambda>centralDirectoryOffset.
       Inr \<lparr>numberOfDisks = numberOfDisks,
            centralDirectoryStartDisk = centralDirectoryStartDisk,
            numberCentralDirectoryRecordsOnThisDisk = onThisDisk,
            numberCentralDirectoryRecords = numberCentralDirectoryRecords,
            centralDirectorySize = centralDirectorySize,
            centralDirectoryOffset = centralDirectoryOffset,
            commentLength = commentLength, comment = []\<rparr>)))))))"

text \<open>
  The forward scan for the data descriptor in \<^verbatim>\<open>read\<close>: it returns \<^verbatim>\<open>scanIndex\<close> as the
  loop leaves it, four bytes past a signature \<open>0x08074b50\<close> that has \<open>0x4b50\<close> sixteen
  bytes after its start, or the first index at which fewer than 20 bytes remain.
\<close>

function scan_descriptor :: "byte list \<Rightarrow> nat \<Rightarrow> error + nat" where
  "scan_descriptor dv scanIndex =
     (if scanIndex + 20 \<le> length dv then
        err_bind (getUint32 dv scanIndex True) (\<lambda>possibleSignature.
          if possibleSignature = 0x08074b50 then
            err_bind (getUint16 dv (scanIndex + 16) True) (\<lambda>pk.
              if pk = 0x4b50 then Inr (scanIndex + 4)
              else scan_descriptor dv (scanIndex + 1))
          else scan_descriptor dv (scanIndex + 1))
      else Inr scanIndex)"
  by pat_completeness auto
termination
  by (relation "measure (\<lambda>(dv, scanIndex). length dv - scanIndex)") auto

declare scan_descriptor.simps [simp del]

text \<open>
  The branch of \<^verbatim>\<open>read\<close> for a local file header at \<^verbatim>\<open>index\<close>: the entry as it is left
  in \<^verbatim>\<open>localFiles\<close>, and the new \<^verbatim>\<open>index\<close>.
\<close>

definition read_local :: "byte list \<Rightarrow> nat \<Rightarrow> error + (entry \<times> nat)" where
  "read_local dv index =
     err_bind (readLocalFile dv index) (\<lambda>entry.
       let hasDataDescriptor = (generalPurpose entry AND 0x0008 \<noteq> 0);
           starts = index + 30 + fileNameLength entry + extraLength entry
       in if compressedSize entry = 0 \<and> hasDataDescriptor then
            err_bind (scan_descriptor dv starts) (\<lambda>scanIndex.
            err_bind (getUint32 dv scanIndex True) (\<lambda>crc'.
            err_bind (getUint32 dv (scanIndex + 4) True) (\<lambda>compressedSize'.
            err_bind (getUint32 dv (scanIndex + 8) True) (\<lambda>uncompressedSize'.
              Inr (entry\<lparr>startsAt := Some starts, crc := crc',
                          compressedSize := compressedSize',
                          uncompressedSize := uncompressedSize'\<rparr>,
                   scanIndex + 12)))))
          else Inr (entry\<lparr>startsAt := Some starts\<rparr>, starts + compressedSize entry))"

record zip =
  index :: nat
  localFiles :: "entry list"
  centralDirectories :: "central_directory_entry list"
  endOfCentralDirectory :: "end_of_central_directory option"

lemma scan_descriptor_ge: "scan_descriptor dv i = Inr j \<Longrightarrow> i \<le> j"
proof (induction dv i rule: scan_descriptor.induct)
  case (1 dv scanIndex)
  show ?case
  proof (cases "scanIndex + 20 \<le> length dv")
    case False
    with "1.prems" show ?thesis by (subst (asm) scan_descriptor.simps) simp
  next
    case True
    then obtain sg where sg: "getUint32 dv scanIndex True = Inr sg"
      by (auto simp: getUint32_def dv_uint_def)
    from True obtain pk where pk: "getUint16 dv (scanIndex + 16) True = Inr pk"
      by (auto simp: getUint16_def dv_uint_def)
    show ?thesis
    proof (cases "sg = 0x08074b50 \<and> pk = 0x4b50")
      case True
      with "1.prems" \<open>scanIndex + 20 \<le> length dv\<close> sg pk show ?thesis
        by (subst (asm) scan_descriptor.simps) (simp add: err_bind_def)
    next
      case False
      with "1.prems" \<open>scanIndex + 20 \<le> length dv\<close> sg pk
      have r: "scan_descriptor dv (scanIndex + 1) = Inr j"
        by (subst (asm) scan_descriptor.simps) (auto simp: err_bind_def split: if_splits)
      have "scanIndex + 1 \<le> j"
      proof (cases "sg = 0x08074b50")
        case True
        with False have "pk \<noteq> 0x4b50" by simp
        from "1.IH"(1) [OF \<open>scanIndex + 20 \<le> length dv\<close> sg True pk this r]
        show ?thesis .
      next
        case False
        from "1.IH"(2) [OF \<open>scanIndex + 20 \<le> length dv\<close> sg False r] show ?thesis .
      qed
      then show ?thesis by simp
    qed
  qed
qed

lemma read_local_advances: "read_local dv i = Inr (e, j) \<Longrightarrow> i < j"
  by (auto simp: read_local_def err_bind_def Let_def split: sum.splits if_splits
           dest!: scan_descriptor_ge)

function zip_read :: "byte list \<Rightarrow> zip \<Rightarrow> error + zip" where
  "zip_read dv z =
     (if endOfCentralDirectory z = None \<and> index z < length dv then
        err_bind (getUint32 dv (index z) True) (\<lambda>signature.
          if signature = 0x04034b50 then
            err_bind (read_local dv (index z)) (\<lambda>(entry, next).
              zip_read dv (z\<lparr>localFiles := localFiles z @ [entry], index := next\<rparr>))
          else if signature = 0x02014b50 then
            err_bind (readCentralDirectory dv (index z)) (\<lambda>entry.
              zip_read dv
                (z\<lparr>centralDirectories := centralDirectories z @ [entry],
                   index := index z + (46 + cd_fileNameLength entry + cd_extraLength entry
                                        + fileCommentLength entry)\<rparr>))
          else if signature = 0x06054b50 then
            err_bind (readEndCentralDirectory dv (index z)) (\<lambda>e.
              Inr (z\<lparr>endOfCentralDirectory := Some e\<rparr>))
          else if signature = 0x06064b50 then
            err_bind (readEndCentralDirectory64 dv (index z)) (\<lambda>e.
              Inr (z\<lparr>endOfCentralDirectory := Some e\<rparr>))
          else Inr z)
      else Inr z)"
  by pat_completeness auto
termination
  by (relation "measure (\<lambda>(dv, z). length dv - index z)")
     (auto dest!: read_local_advances)

declare zip_read.simps [simp del]

text \<open>\<^verbatim>\<open>new Zip(arrayBuffer)\<close> followed by \<^verbatim>\<open>.entries\<close>.\<close>

definition zip_entries :: "byte list \<Rightarrow> error + entry list" where
  "zip_entries arrayBuffer =
     err_bind
       (zip_read arrayBuffer
          \<lparr>index = 0, localFiles = [], centralDirectories = [],
           endOfCentralDirectory = None\<rparr>)
       (\<lambda>z. Inr (localFiles z))"


section \<open>Arithmetic on numbers\<close>

text \<open>
  The IEEE-754 rules for the special values, and exact arithmetic on the finite ones
  (no rounding, no overflow to infinity).
\<close>

definition is_neg :: "jsnum \<Rightarrow> bool" where
  "is_neg x = (case x of Fin r \<Rightarrow> r < 0 | NegZero \<Rightarrow> True | NegInf \<Rightarrow> True | _ \<Rightarrow> False)"

definition is_zero :: "jsnum \<Rightarrow> bool" where
  "is_zero x = (case x of Fin r \<Rightarrow> r = 0 | NegZero \<Rightarrow> True | _ \<Rightarrow> False)"

definition is_inf :: "jsnum \<Rightarrow> bool" where
  "is_inf x = (case x of PosInf \<Rightarrow> True | NegInf \<Rightarrow> True | _ \<Rightarrow> False)"

definition rat_of :: "jsnum \<Rightarrow> rat" where
  "rat_of x = (case x of Fin r \<Rightarrow> r | _ \<Rightarrow> 0)"

definition mk_zero :: "bool \<Rightarrow> jsnum" where
  "mk_zero neg = (if neg then NegZero else Fin 0)"

definition mk_inf :: "bool \<Rightarrow> jsnum" where
  "mk_inf neg = (if neg then NegInf else PosInf)"

definition js_mul :: "jsnum \<Rightarrow> jsnum \<Rightarrow> jsnum" where
  "js_mul a b =
     (if isNaN a \<or> isNaN b then NaN
      else if is_inf a \<or> is_inf b then
        (if is_zero a \<or> is_zero b then NaN else mk_inf (is_neg a \<noteq> is_neg b))
      else if is_zero a \<or> is_zero b then mk_zero (is_neg a \<noteq> is_neg b)
      else Fin (rat_of a * rat_of b))"

definition js_add :: "jsnum \<Rightarrow> jsnum \<Rightarrow> jsnum" where
  "js_add a b =
     (if isNaN a \<or> isNaN b then NaN
      else if is_inf a then (if is_inf b \<and> a \<noteq> b then NaN else a)
      else if is_inf b then b
      else if is_zero a \<and> is_zero b then mk_zero (is_neg a \<and> is_neg b)
      else Fin (rat_of a + rat_of b))"

definition js_div :: "jsnum \<Rightarrow> jsnum \<Rightarrow> jsnum" where
  "js_div a b =
     (if isNaN a \<or> isNaN b then NaN
      else if is_inf a then (if is_inf b then NaN else mk_inf (is_neg a \<noteq> is_neg b))
      else if is_inf b then mk_zero (is_neg a \<noteq> is_neg b)
      else if is_zero b then (if is_zero a then NaN else mk_inf (is_neg a \<noteq> is_neg b))
      else if is_zero a then mk_zero (is_neg a \<noteq> is_neg b)
      else Fin (rat_of a / rat_of b))"

text \<open>
  Modelled from the spec: the 4x4 matrices of the external library gl-matrix, which is
  not among the sources (the specification leaves "a general 4x4 matrix multiply"
  to it). A matrix is the list of its 16 entries; \<open>mat4_mul a b\<close> is \<^verbatim>\<open>mat4.mul(out, a, b)\<close>,
  computed row by row of \<open>b\<close>:
  \<open>out[4r + c] = b[4r] a[c] + b[4r + 1] a[4 + c] + b[4r + 2] a[8 + c] + b[4r + 3] a[12 + c]\<close>.
\<close>

definition mat4_identity :: "jsnum list" where
  "mat4_identity =
     [Fin 1, Fin 0, Fin 0, Fin 0, Fin 0, Fin 1, Fin 0, Fin 0,
      Fin 0, Fin 0, Fin 1, Fin 0, Fin 0, Fin 0, Fin 0, Fin 1]"

definition mat4_row :: "jsnum list \<Rightarrow> jsnum \<Rightarrow> jsnum \<Rightarrow> jsnum \<Rightarrow> jsnum \<Rightarrow> jsnum list" where
  "mat4_row a b0 b1 b2 b3 =
     map (\<lambda>c. js_add (js_add (js_add (js_mul b0 (a ! c)) (js_mul b1 (a ! (4 + c))))
                              (js_mul b2 (a ! (8 + c))))
                      (js_mul b3 (a ! (12 + c))))
         [0, 1, 2, 3]"

definition mat4_mul :: "jsnum list \<Rightarrow> jsnum list \<Rightarrow> jsnum list" where
  "mat4_mul a b =
     mat4_row a (b ! 0) (b ! 1) (b ! 2) (b ! 3) @ mat4_row a (b ! 4) (b ! 5) (b ! 6) (b ! 7)
     @ mat4_row a (b ! 8) (b ! 9) (b ! 10) (b ! 11)
     @ mat4_row a (b ! 12) (b ! 13) (b ! 14) (b ! 15)"

section \<open>readTRK\<close>

text \<open>An entry of \<^verbatim>\<open>dpv\<close>, \<^verbatim>\<open>dps\<close> or \<^verbatim>\<open>dpg\<close>: \<^verbatim>\<open>{ id, vals }\<close>.\<close>

record attribute =
  ident :: "byte list"
  vals :: "jsnum list"

record trk = tractogram +
  dps :: "attribute list"
  dpv :: "attribute list"

text \<open>
  The body after the header as 32-bit words: \<^verbatim>\<open>i32\<close> and \<^verbatim>\<open>f32\<close> are two views of the
  same buffer. A read past the end of a typed array is \<^verbatim>\<open>undefined\<close>, which becomes NaN
  in the arithmetic and in \<^verbatim>\<open>Float32Array.from\<close>.
\<close>

fun words_of :: "byte list \<Rightarrow> nat list" where
  "words_of (a # b # c # d # bs) = le_val [a, b, c, d] # words_of bs"
| "words_of bs = []"

definition f32_get :: "nat list \<Rightarrow> nat \<Rightarrow> jsnum" where
  "f32_get ws i = (if i < length ws then f32_of_bits (ws ! i) else NaN)"

text \<open>The 20-byte name slot at \<open>off\<close>: the text before the first NUL, trimmed.\<close>

definition trk_name :: "byte list \<Rightarrow> nat \<Rightarrow> byte list" where
  "trk_name buffer off = trim (takeWhile (\<lambda>c. c \<noteq> 0) (slice buffer off (off + 20)))"

definition trk_names :: "byte list \<Rightarrow> nat \<Rightarrow> int \<Rightarrow> attribute list" where
  "trk_names buffer base n =
     map (\<lambda>i. \<lparr>ident = trk_name buffer (base + i * 20), vals = []\<rparr>) [0..<nat n]"

text \<open>\<^verbatim>\<open>for (i = 0; i < n; i++) mat[i] = reader.getFloat32(off + i * 4, true)\<close>.\<close>

fun read_floats :: "byte list \<Rightarrow> nat \<Rightarrow> nat \<Rightarrow> error + jsnum list" where
  "read_floats buffer off 0 = Inr []"
| "read_floats buffer off (Suc n) =
     err_bind (getFloat32 buffer off True) (\<lambda>v.
     err_bind (read_floats buffer (off + 4) n) (\<lambda>vs. Inr (v # vs)))"

record trk_state =
  k_i :: nat
  k_npt :: nat
  k_noffset :: nat
  k_npt3 :: nat
  k_pts :: "jsnum list"
  k_offsetPt0 :: "32 word list"
  k_dpv :: "attribute list"
  k_dps :: "attribute list"

text \<open>
  \<^verbatim>\<open>for (s = 0; s < n; s++) { d[s].vals.push(f32[i]); i++ }\<close> over the \<open>n\<close> entries of
  \<open>d\<close>: the new entries and the new \<open>i\<close>.
\<close>

fun push_each :: "nat list \<Rightarrow> attribute list \<Rightarrow> nat \<Rightarrow> attribute list \<times> nat" where
  "push_each f32 [] i = ([], i)"
| "push_each f32 (d # ds) i =
     (case push_each f32 ds (i + 1) of
        (ds', i') \<Rightarrow> (d\<lparr>vals := vals d @ [f32_get f32 i]\<rparr> # ds', i'))"

text \<open>The body of the loop over the points of a streamline.\<close>

definition trk_vertex :: "nat list \<Rightarrow> jsnum list \<Rightarrow> trk_state \<Rightarrow> trk_state" where
  "trk_vertex f32 m st =
     (let i = k_i st;
          ptx = f32_get f32 (i + 0); pty = f32_get f32 (i + 1); ptz = f32_get f32 (i + 2);
          x = js_add (js_add (js_add (js_mul ptx (m ! 0)) (js_mul pty (m ! 1)))
                             (js_mul ptz (m ! 2))) (m ! 3);
          y = js_add (js_add (js_add (js_mul ptx (m ! 4)) (js_mul pty (m ! 5)))
                             (js_mul ptz (m ! 6))) (m ! 7);
          z = js_add (js_add (js_add (js_mul ptx (m ! 8)) (js_mul pty (m ! 9)))
                             (js_mul ptz (m ! 10))) (m ! 11);
          n3 = k_npt3 st
      in case push_each f32 (k_dpv st) (i + 3) of
           (dpv', i') \<Rightarrow>
             st\<lparr>k_i := i', k_pts := (k_pts st)[n3 := x, n3 + 1 := y, n3 + 2 := z],
                k_npt3 := n3 + 3, k_dpv := dpv', k_npt := k_npt st + 1\<rparr>)"

text \<open>
  The body of the loop over the streamlines: the count, the offset, the points, the
  properties.
\<close>

definition trk_streamline :: "nat list \<Rightarrow> jsnum list \<Rightarrow> trk_state \<Rightarrow> trk_state" where
  "trk_streamline w m st =
     (let n_pts = to_signed 32 (w ! k_i st);
          st1 = st\<lparr>k_i := k_i st + 1,
                   k_offsetPt0 := (k_offsetPt0 st)[k_noffset st := of_nat (k_npt st)],
                   k_noffset := k_noffset st + 1\<rparr>;
          st2 = (trk_vertex w m ^^ nat n_pts) st1
      in case push_each w (k_dps st2) (k_i st2) of
           (dps', i') \<Rightarrow> st2\<lparr>k_i := i', k_dps := dps'\<rparr>)"

lemma push_each_index: "snd (push_each f32 ds i) = i + length ds"
  by (induction ds arbitrary: i) (simp_all add: case_prod_beta)

lemma push_each_ge: "push_each f32 ds i = (ds', i') \<Longrightarrow> i \<le> i'"
  using push_each_index [of f32 ds i] by simp

lemma trk_vertex_ge: "k_i st \<le> k_i (trk_vertex w m st)"
  by (auto simp: trk_vertex_def Let_def split: prod.splits dest!: push_each_ge)

lemma trk_vertices_ge: "k_i st \<le> k_i ((trk_vertex w m ^^ n) st)"
proof (induction n)
  case 0
  show ?case by simp
next
  case (Suc n)
  have "k_i ((trk_vertex w m ^^ n) st) \<le> k_i (trk_vertex w m ((trk_vertex w m ^^ n) st))"
    by (rule trk_vertex_ge)
  with Suc show ?case by simp
qed

lemma trk_streamline_gt: "k_i st < k_i (trk_streamline w m st)"
proof -
  let ?st1 = "st\<lparr>k_i := k_i st + 1,
                   k_offsetPt0 := (k_offsetPt0 st)[k_noffset st := of_nat (k_npt st)],
                   k_noffset := k_noffset st + 1\<rparr>"
  let ?st2 = "(trk_vertex w m ^^ nat (to_signed 32 (w ! k_i st))) ?st1"
  have "k_i ?st1 \<le> k_i ?st2" by (rule trk_vertices_ge)
  then have "k_i st < k_i ?st2" by simp
  then show ?thesis
    by (auto simp: trk_streamline_def Let_def split: prod.splits dest!: push_each_ge)
qed

function trk_scan :: "nat list \<Rightarrow> jsnum list \<Rightarrow> trk_state \<Rightarrow> trk_state" where
  "trk_scan w m st =
     (if k_i st < length w then trk_scan w m (trk_streamline w m st) else st)"
  by pat_completeness auto
termination
proof (relation "measure (\<lambda>(w, m, st). length w - k_i st)")
  show "wf (measure (\<lambda>(w, m, st). length w - k_i st))" by simp
next
  fix w :: "nat list" and m :: "jsnum list" and st :: trk_state
  assume "k_i st < length w"
  with trk_streamline_gt [of st w m]
  show "((w, m, trk_streamline w m st), w, m, st) \<in> measure (\<lambda>(w, m, st). length w - k_i st)"
    by simp
qed

declare trk_scan.simps [simp del]

text \<open>
  The decoding of a buffer whose magic has been read (\<^verbatim>\<open>readTRK\<close> from the line that
  reads \<^verbatim>\<open>vers\<close> on).
\<close>

definition trk_decode :: "byte list \<Rightarrow> nat \<Rightarrow> error + trk" where
  "trk_decode buffer magic =
     err_bind (getUint32 buffer 992 True) (\<lambda>vers.
     err_bind (getUint32 buffer 996 True) (\<lambda>hdr_sz.
     if vers > 2 \<or> hdr_sz \<noteq> 1000 \<or> magic \<noteq> 1128354388 then Inl (Error ''Not a valid TRK file'')
     else
     err_bind (getInt16 buffer 36 True) (\<lambda>n_scalars.
     let dpv0 = trk_names buffer 38 n_scalars in
     err_bind (getFloat32 buffer 12 True) (\<lambda>voxel_sizeX.
     err_bind (getFloat32 buffer 16 True) (\<lambda>voxel_sizeY.
     err_bind (getFloat32 buffer 20 True) (\<lambda>voxel_sizeZ.
     let zoomMat =
           [js_div (Fin 1) voxel_sizeX, Fin 0, Fin 0, Fin (- 1 / 2),
            Fin 0, js_div (Fin 1) voxel_sizeY, Fin 0, Fin (- 1 / 2),
            Fin 0, Fin 0, js_div (Fin 1) voxel_sizeZ, Fin (- 1 / 2),
            Fin 0, Fin 0, Fin 0, Fin 1] in
     err_bind (getInt16 buffer 238 True) (\<lambda>n_properties.
     let dps0 = trk_names buffer 240 n_properties in
     err_bind (read_floats buffer 440 16) (\<lambda>mat0.
     let mat = (if is_zero (mat0 ! 15) then mat4_identity else mat0);
         vox2mmMat = mat4_mul zoomMat mat;
         body = drop hdr_sz buffer
     in if length body mod 4 \<noteq> 0 then Inl RangeError
        else
          let i32 = words_of body; ntracks = length i32 in
          if ntracks < 1 then Inl (Error ''Empty TRK file.'')
          else
            let st = trk_scan i32 vox2mmMat
                       \<lparr>k_i = 0, k_npt = 0, k_noffset = 0, k_npt3 = 0,
                        k_pts = replicate (length i32) (Fin 0),
                        k_offsetPt0 = replicate (length i32 div 4) 0,
                        k_dpv = dpv0, k_dps = dps0\<rparr>;
                offs = (k_offsetPt0 st)[k_noffset st := of_nat (k_npt st)];
                noffset = k_noffset st + 1
            in Inr \<lparr>pts = take (k_npt3 st) (k_pts st), offsetPt0 = take noffset offs,
                    dps = k_dps st, dpv = k_dpv st\<rparr>))))))))"

definition readTRK :: "(byte list \<Rightarrow> error + byte list) \<Rightarrow> byte list \<Rightarrow> error + trk" where
  "readTRK decompress buffer =
     err_bind (getUint32 buffer 0 True) (\<lambda>magic.
       if magic \<noteq> 1128354388 then
         (if magic = 4247762216 then Inl (Error ''zstd TRK decompression is not supported'')
          else
            err_bind (decompress buffer) (\<lambda>raw.
            err_bind (getUint32 raw 0 True) (\<lambda>magic'. trk_decode raw magic')))
       else trk_decode buffer magic)"


section \<open>readTT\<close>

text \<open>
  \<^verbatim>\<open>readTT\<close> takes the variables of the file from \<^verbatim>\<open>readMatV4\<close>, which is not modelled:
  the decoder below starts from its result. Of \<^verbatim>\<open>trans_to_mni\<close> it uses the elements, of
  \<^verbatim>\<open>voxel_size\<close> the presence only, of \<^verbatim>\<open>track\<close> the length (in elements) and the
  underlying buffer. \<open>None\<close> is a variable the file does not have.
\<close>

record typed_array =
  ta_length :: nat
  ta_buffer :: "byte list"

record mat_v4 =
  trans_to_mni :: "jsnum list option"
  voxel_size :: "jsnum list option"
  track :: "typed_array option"

text \<open>\<^verbatim>\<open>a[i]\<close> where the value is used as a number: \<^verbatim>\<open>undefined\<close> becomes NaN.\<close>

definition num_at :: "jsnum list \<Rightarrow> nat \<Rightarrow> jsnum" where
  "num_at a i = (if i < length a then a ! i else NaN)"

text \<open>
  Modelled from the spec: \<^verbatim>\<open>mat4.transpose\<close> of the external library gl-matrix,
  \<open>out[4r + c] = a[4c + r]\<close>.
\<close>

definition mat4_transpose :: "jsnum list \<Rightarrow> jsnum list" where
  "mat4_transpose a =
     [a ! 0, a ! 4, a ! 8, a ! 12, a ! 1, a ! 5, a ! 9, a ! 13,
      a ! 2, a ! 6, a ! 10, a ! 14, a ! 3, a ! 7, a ! 11, a ! 15]"

text \<open>
  The first loop of \<^verbatim>\<open>parse_tt\<close>: the start of every record and the sum of the sizes.
\<close>

function tt_positions ::
  "byte list \<Rightarrow> nat \<Rightarrow> nat \<Rightarrow> nat list \<Rightarrow> nat \<Rightarrow> error + (nat list \<times> nat)" where
  "tt_positions dv len i pos nvert3 =
     (if i < len then
        err_bind (getUint32 dv i True) (\<lambda>newpts.
          tt_positions dv len (i + newpts + 13) (pos @ [i]) (nvert3 + newpts))
      else Inr (pos, nvert3))"
  by pat_completeness auto
termination
  by (relation "measure (\<lambda>(dv, len, i, pos, nvert3). len - i)") auto

declare tt_positions.simps [simp del]

record tt_state =
  s_npt :: nat
  s_pts :: "jsnum list"
  s_offsetPt0 :: "32 word list"

text \<open>
  The loop \<^verbatim>\<open>for (j = 2; j <= sz; j++)\<close> over the points after the first, \<open>n\<close> of them
  left: three signed bytes are added to the running point.
\<close>

fun tt_deltas ::
  "byte list \<Rightarrow> nat \<Rightarrow> nat \<Rightarrow> int \<times> int \<times> int \<Rightarrow> tt_state \<Rightarrow> error + tt_state" where
  "tt_deltas dv 0 p xyz st = Inr st"
| "tt_deltas dv (Suc n) p (x, y, z) st =
     err_bind (getInt8 dv p) (\<lambda>dx.
     err_bind (getInt8 dv (p + 1)) (\<lambda>dy.
     err_bind (getInt8 dv (p + 2)) (\<lambda>dz.
       let x' = x + dx; y' = y + dy; z' = z + dz; npt = s_npt st in
       tt_deltas dv n (p + 3) (x', y', z')
         (st\<lparr>s_pts := (s_pts st)[npt := Fin (of_int x'), npt + 1 := Fin (of_int y'),
                                     npt + 2 := Fin (of_int z')],
             s_npt := npt + 3\<rparr>))))"

text \<open>The second loop, over the records: \<open>i\<close> counts them.\<close>

fun tt_records :: "byte list \<Rightarrow> nat list \<Rightarrow> nat \<Rightarrow> tt_state \<Rightarrow> error + tt_state" where
  "tt_records dv [] i st = Inr st"
| "tt_records dv (p # ps) i st =
     (let npt = s_npt st;
          offs = (s_offsetPt0 st)[i := of_nat (npt div 3)] in
      err_bind (getUint32 dv p True) (\<lambda>size.
      err_bind (getInt32 dv (p + 4) True) (\<lambda>x.
      err_bind (getInt32 dv (p + 8) True) (\<lambda>y.
      err_bind (getInt32 dv (p + 12) True) (\<lambda>z.
      err_bind
        (tt_deltas dv (size div 3 - 1) (p + 16) (x, y, z)
           (st\<lparr>s_offsetPt0 := offs,
               s_pts := (s_pts st)[npt := Fin (of_int x), npt + 1 := Fin (of_int y),
                                   npt + 2 := Fin (of_int z)],
               s_npt := npt + 3\<rparr>))
        (\<lambda>st'. tt_records dv ps (i + 1) st'))))))"

declare tt_deltas.simps [simp del] tt_records.simps [simp del]

text \<open>
  The loop that applies \<^verbatim>\<open>trans_to_mni\<close> to the points, three entries at a time.
\<close>

function tt_transform :: "jsnum list \<Rightarrow> nat \<Rightarrow> nat \<Rightarrow> jsnum list \<Rightarrow> jsnum list" where
  "tt_transform t npt v ps =
     (if v < npt then
        (let x = num_at ps v; y = num_at ps (v + 1); z = num_at ps (v + 2) in
         tt_transform t npt (v + 3)
           (ps[v := js_add (js_add (js_add (js_mul (t ! 0) x) (js_mul (t ! 4) y))
                                   (js_mul (t ! 8) z)) (t ! 12),
               v + 1 := js_add (js_add (js_add (js_mul (t ! 1) x) (js_mul (t ! 5) y))
                                       (js_mul (t ! 9) z)) (t ! 13),
               v + 2 := js_add (js_add (js_add (js_mul (t ! 2) x) (js_mul (t ! 6) y))
                                       (js_mul (t ! 10) z)) (t ! 14)]))
      else ps)"
  by pat_completeness auto
termination
  by (relation "measure (\<lambda>(t, npt, v, ps). npt - v)") auto

declare tt_transform.simps [simp del]

definition parse_tt :: "jsnum list \<Rightarrow> typed_array \<Rightarrow> error + tractogram" where
  "parse_tt t trk =
     (let dv = ta_buffer trk in
      err_bind (tt_positions dv (ta_length trk) 0 [] 0) (\<lambda>(pos, nvert3).
      err_bind
        (tt_records dv pos 0
           \<lparr>s_npt = 0, s_pts = replicate nvert3 (Fin 0),
            s_offsetPt0 = replicate (length pos + 1) 0\<rparr>)
        (\<lambda>st.
           let npt = s_npt st;
               scaled = map (\<lambda>v. js_div v (Fin 32)) (take npt (s_pts st)) @ drop npt (s_pts st);
               moved = tt_transform t npt 0 scaled
           in Inr \<lparr>pts = moved,
                   offsetPt0 = (s_offsetPt0 st)[length pos := of_nat (npt div 3)]\<rparr>)))"

definition readTT :: "mat_v4 \<Rightarrow> error + tractogram" where
  "readTT mat =
     (case trans_to_mni mat of
        None \<Rightarrow> Inl (Error ''TT format file must have 'trans_to_mni' '')
      | Some m \<Rightarrow>
     (case voxel_size mat of
        None \<Rightarrow> Inl (Error ''TT format file must have 'voxel_size' '')
      | Some vs \<Rightarrow>
     (case track mat of
        None \<Rightarrow> Inl (Error ''TT format file must have 'track' '')
      | Some trk \<Rightarrow>
          parse_tt (mat4_transpose (map (num_at m) [0, 1, 2, 3, 4, 5, 6, 7, 8, 9, 10, 11,
                                                   12, 13, 14, 15])) trk)))"


section \<open>readVTK\<close>

text \<open>The value of an IEEE-754 binary64 bit pattern (sign 1 bit, exponent 11, fraction 52).\<close>

definition f64_of_bits :: "nat \<Rightarrow> jsnum" where
  "f64_of_bits v =
     (let neg = (v div 2 ^ 63 = 1); e = (v div 2 ^ 52) mod 2048; m = v mod 2 ^ 52;
          sg = (if neg then - 1 else 1 :: rat)
      in if e = 2047 then (if m = 0 then (if neg then NegInf else PosInf) else NaN)
         else if e = 0 then
           (if m = 0 then (if neg then NegZero else Fin 0)
            else Fin (sg * of_nat m / 2 ^ 1074))
         else if 1075 \<le> e then Fin (sg * of_nat (2 ^ 52 + m) * 2 ^ (e - 1075))
         else Fin (sg * of_nat (2 ^ 52 + m) / 2 ^ (1075 - e)))"

definition getFloat64 :: "byte list \<Rightarrow> nat \<Rightarrow> bool \<Rightarrow> error + jsnum" where
  "getFloat64 buf off little = err_bind (dv_uint 8 buf off little) (\<lambda>v. Inr (f64_of_bits v))"

text \<open>
  \<^verbatim>\<open>s.split(/\s+/)\<close>: the pieces between the runs of blanks. The flag says that the
  previous character was a blank.
\<close>

fun split_ws :: "bool \<Rightarrow> byte list \<Rightarrow> byte list list" where
  "split_ws b [] = [[]]"
| "split_ws b (c # cs) =
     (if is_space c then (if b then split_ws True cs else [] # split_ws True cs)
      else (case split_ws False cs of p # ps \<Rightarrow> (c # p) # ps | [] \<Rightarrow> [[c]]))"

text \<open>\<^verbatim>\<open>parseInt(items[1])\<close>: NaN when the line has a single item.\<close>

definition second_int :: "byte list \<Rightarrow> jsint" where
  "second_int line =
     (let items = split_ws False line in
      if 1 < length items then parseInt (items ! 1) else None)"

text \<open>\<^verbatim>\<open>readStr\<close> of \<^verbatim>\<open>readVTK\<close>: the line is trimmed.\<close>

definition vtk_readStr :: "byte list \<Rightarrow> nat \<Rightarrow> byte list \<times> nat" where
  "vtk_readStr bytes pos0 =
     (let startPos = scan_while (\<lambda>b. b = 10) bytes pos0;
          pos = scan_while (\<lambda>b. b \<noteq> 10) bytes startPos + 1
      in (trim (slice bytes startPos (pos - 1)), pos))"

text \<open>
  \<^verbatim>\<open>new Float32Array(n)\<close> and \<^verbatim>\<open>new Uint32Array(n)\<close> for a length that may be NaN
  (an empty array) or negative (a \<open>RangeError\<close>). The limit of the runtime on the length
  of an array is not modelled.
\<close>

definition new_array :: "jsint \<Rightarrow> 'a \<Rightarrow> error + 'a list" where
  "new_array n z =
     (case n of None \<Rightarrow> Inr []
      | Some k \<Rightarrow> if k < 0 then Inl RangeError else Inr (replicate (nat k) z))"

text \<open>The loop that reads the point table: \<open>n\<close> values are left to read.\<close>

fun vtk_points :: "byte list \<Rightarrow> bool \<Rightarrow> nat \<Rightarrow> nat \<Rightarrow> error + (jsnum list \<times> nat)" where
  "vtk_points buffer isFloat64 pos 0 = Inr ([], pos)"
| "vtk_points buffer isFloat64 pos (Suc n) =
     err_bind (if isFloat64 then getFloat64 buffer pos False else getFloat32 buffer pos False)
       (\<lambda>v.
     err_bind (vtk_points buffer isFloat64 (pos + (if isFloat64 then 8 else 4)) n)
       (\<lambda>(vs, pos'). Inr (v # vs, pos')))"

text \<open>The loops of the \<^verbatim>\<open>OFFSETS\<close> branch: \<open>n\<close> offsets are left to read.\<close>

fun vtk_offsets ::
  "byte list \<Rightarrow> bool \<Rightarrow> nat \<Rightarrow> nat \<Rightarrow> nat \<Rightarrow> 32 word list \<Rightarrow> error + 32 word list" where
  "vtk_offsets buffer isInt64 pos c 0 offs = Inr offs"
| "vtk_offsets buffer isInt64 pos c (Suc n) offs =
     (if isInt64 then
        err_bind (getInt32 buffer pos False) (\<lambda>hi.
        err_bind (getInt32 buffer (pos + 4) False) (\<lambda>idx.
          vtk_offsets buffer isInt64 (pos + 8) (c + 1) n (offs[c := of_int idx])))
      else
        err_bind (getInt32 buffer pos False) (\<lambda>idx.
          vtk_offsets buffer isInt64 (pos + 4) (c + 1) n (offs[c := of_int idx])))"

record vtk_state =
  v_pos :: nat
  v_npt :: int
  v_pts :: "jsnum list"
  v_offsetPt0 :: "32 word list"

text \<open>
  \<^verbatim>\<open>positions[idx]\<close> for an index that may be negative or past the end: \<^verbatim>\<open>undefined\<close>
  there, which \<^verbatim>\<open>new Float32Array(pts)\<close> turns into NaN.
\<close>

definition positions_at :: "jsnum list \<Rightarrow> int \<Rightarrow> jsnum" where
  "positions_at positions idx =
     (if 0 \<le> idx \<and> idx < int (length positions) then positions ! nat idx else NaN)"

text \<open>The loop over the vertex indices of a line: \<open>n\<close> indices are left.\<close>

fun vtk_indices ::
  "byte list \<Rightarrow> jsnum list \<Rightarrow> jsint \<Rightarrow> nat \<Rightarrow> vtk_state \<Rightarrow> error + vtk_state" where
  "vtk_indices buffer positions nvert3 0 st = Inr st"
| "vtk_indices buffer positions nvert3 (Suc n) st =
     (if v_pos st + 4 > length buffer
      then Inl (Error ''Unexpected end of file when reading streamline points.'')
      else
        err_bind (getInt32 buffer (v_pos st) False) (\<lambda>k.
          let idx = k * 3 in
          if (case nvert3 of None \<Rightarrow> False | Some n3 \<Rightarrow> idx + 2 \<ge> n3)
          then Inl (Error ''Index out of bounds: '')
          else
            vtk_indices buffer positions nvert3 n
              (st\<lparr>v_pos := v_pos st + 4,
                  v_pts := v_pts st @ [positions_at positions idx,
                                       positions_at positions (idx + 1),
                                       positions_at positions (idx + 2)]\<rparr>)))"

text \<open>The loop over the lines: \<open>c\<close> counts them, \<open>n\<close> are left.\<close>

fun vtk_lines ::
  "byte list \<Rightarrow> jsnum list \<Rightarrow> jsint \<Rightarrow> nat \<Rightarrow> nat \<Rightarrow> vtk_state \<Rightarrow> error + vtk_state" where
  "vtk_lines buffer positions nvert3 c 0 st = Inr st"
| "vtk_lines buffer positions nvert3 c (Suc n) st =
     (if v_pos st + 4 > length buffer
      then Inl (Error ''Unexpected end of file when reading streamline count.'')
      else
        err_bind (getInt32 buffer (v_pos st) False) (\<lambda>numPoints.
          let npt = v_npt st + numPoints in
          err_bind
            (vtk_indices buffer positions nvert3 (nat numPoints)
               (st\<lparr>v_pos := v_pos st + 4, v_npt := npt,
                   v_offsetPt0 := (v_offsetPt0 st)[c + 1 := of_int npt]\<rparr>))
            (\<lambda>st'. vtk_lines buffer positions nvert3 (c + 1) n st')))"

declare vtk_points.simps [simp del] vtk_offsets.simps [simp del]
  vtk_indices.simps [simp del] vtk_lines.simps [simp del]

definition jsint_nat :: "jsint \<Rightarrow> nat" where
  "jsint_nat n = (case n of None \<Rightarrow> 0 | Some k \<Rightarrow> nat k)"

definition readVTK :: "byte list \<Rightarrow> error + tractogram" where
  "readVTK buffer =
     (let len = length buffer in
      if len < 20 then Inl (Error ''File too small to be VTK: bytes = '')
      else
      case vtk_readStr buffer 0 of (line1, pos1) \<Rightarrow>
      if \<not> startsWith line1 (ascii ''# vtk DataFile'') then Inl (Error ''Invalid VTK file'')
      else
      case vtk_readStr buffer pos1 of (comment_line, pos2) \<Rightarrow>
      case vtk_readStr buffer pos2 of (line3, pos3) \<Rightarrow>
      if startsWith line3 (ascii ''ASCII'')
      then Inl (Error ''Invalid VTK file, expected ASCII or BINARY but got: '')
      else if \<not> startsWith line3 (ascii ''BINARY'')
      then Inl (Error ''Invalid VTK file, expected ASCII or BINARY but got: '')
      else
      case vtk_readStr buffer pos3 of (line4, pos4) \<Rightarrow>
      if \<not> str_includes line4 (ascii ''POLYDATA'')
      then Inl (Error ''Only able to read VTK POLYDATA'')
      else
      case vtk_readStr buffer pos4 of (line5, pos5) \<Rightarrow>
      if \<not> startsWith line5 (ascii ''POINTS'') \<or>
         (\<not> str_includes line5 (ascii ''double'') \<and> \<not> str_includes line5 (ascii ''float''))
      then Inl (Error ''Only able to read VTK float or double POINTS: '')
      else
        let isFloat64 = str_includes line5 (ascii ''double'');
            nvert = second_int line5;
            nvert3 = map_option (\<lambda>n. n * 3) nvert
        in
        err_bind (new_array nvert3 (Fin 0)) (\<lambda>positions0.
        if (case nvert3 of None \<Rightarrow> False
            | Some n3 \<Rightarrow> int pos5 + (if isFloat64 then 8 else 4) * n3 > int len)
        then Inl (Error ''See NiiVue for VTK ASCII support.'')
        else
        err_bind (vtk_points buffer isFloat64 pos5 (jsint_nat nvert3)) (\<lambda>(positions, pos6).
        case vtk_readStr buffer pos6 of (line6, posOK) \<Rightarrow>
        if \<not> startsWith line6 (ascii ''LINES'')
        then Inl (Error ''See NiiVue for VTK support (this library only reads LINES)'')
        else
          let n_count = second_int line6 in
          case vtk_readStr buffer posOK of (line7, pos7) \<Rightarrow>
          if startsWith line7 (ascii ''OFFSETS'') then
            err_bind (new_array n_count 0) (\<lambda>offs0.
            err_bind
              (vtk_offsets buffer (str_includes line7 (ascii ''int64'')) pos7 0
                 (jsint_nat n_count) offs0)
              (\<lambda>offs. Inr \<lparr>pts = positions, offsetPt0 = offs\<rparr>))
          else
            err_bind (new_array (map_option (\<lambda>n. n + 1) n_count) 0) (\<lambda>offs0.
            err_bind
              (vtk_lines buffer positions nvert3 0 (jsint_nat n_count)
                 \<lparr>v_pos = posOK, v_npt = 0, v_pts = [], v_offsetPt0 = offs0[0 := 0]\<rparr>)
              (\<lambda>st. Inr \<lparr>pts = v_pts st, offsetPt0 = v_offsetPt0 st\<rparr>)))))"


section \<open>readTRX\<close>

















section \<open>Vocabulary of the properties\<close>

text \<open>
  The fence-post convention of the tractogram: the offsets start at 0, never decrease,
  and end at the number of vertices, \<^verbatim>\<open>pts.length / 3\<close>.
\<close>

definition fence_post :: "tractogram \<Rightarrow> bool" where
  "fence_post t =
     (offsetPt0 t \<noteq> [] \<and> hd (offsetPt0 t) = 0 \<and> sorted (offsetPt0 t) \<and>
      3 * unat (last (offsetPt0 t)) = length (pts t))"

text \<open>
  A data descriptor as the scan of \<^verbatim>\<open>read\<close> recognises it at \<open>p\<close>: at least 20 bytes
  left, the signature \<open>0x08074b50\<close>, and \<open>0x4b50\<close> in the 16-bit field at \<open>p + 16\<close>.
\<close>

definition is_descriptor :: "byte list \<Rightarrow> nat \<Rightarrow> bool" where
  "is_descriptor dv p =
     (p + 20 \<le> length dv \<and> getUint32 dv p True = Inr 0x08074b50 \<and>
      getUint16 dv (p + 16) True = Inr 0x4b50)"

text \<open>
  From the specification of the TT track: each record begins with a little-endian uint32
  size field and occupies \<open>size + 13\<close> bytes. \<open>tt_layout dv len i ps\<close> says that \<open>ps\<close> are
  the starts of records laid out back to back from byte \<open>i\<close>, each \<open>size + 13\<close> bytes
  after the one before, the last one ending at or after \<open>len\<close>; \<open>tt_sizes\<close> is the sum
  of their size fields.
\<close>

fun tt_layout :: "byte list \<Rightarrow> nat \<Rightarrow> nat \<Rightarrow> nat list \<Rightarrow> bool" where
  "tt_layout dv len i [] = (\<not> i < len)"
| "tt_layout dv len i (p # ps) =
     (p = i \<and> i < len \<and>
      (case getUint32 dv i True of
         Inl e \<Rightarrow> False
       | Inr sz \<Rightarrow> tt_layout dv len (i + sz + 13) ps))"

definition tt_sizes :: "byte list \<Rightarrow> nat list \<Rightarrow> nat" where
  "tt_sizes dv ps =
     sum_list (map (\<lambda>p. case getUint32 dv p True of Inl e \<Rightarrow> 0 | Inr sz \<Rightarrow> sz) ps)"


section \<open>Test buffers\<close>

text \<open>
  Binary32 patterns, little-endian: 1.0 is \<open>3F800000\<close>, 2.0 is \<open>40000000\<close>, 3.0 is
  \<open>40400000\<close>, a NaN is \<open>7FC00000\<close> and +infinity is \<open>7F800000\<close>.
\<close>

definition f32_1 :: "byte list" where "f32_1 = [0x00, 0x00, 0x80, 0x3F]"
definition f32_2 :: "byte list" where "f32_2 = [0x00, 0x00, 0x00, 0x40]"
definition f32_3 :: "byte list" where "f32_3 = [0x00, 0x00, 0x40, 0x40]"
definition f32_nan :: "byte list" where "f32_nan = [0x00, 0x00, 0xC0, 0x7F]"
definition f32_inf :: "byte list" where "f32_inf = [0x00, 0x00, 0x80, 0x7F]"

text \<open>A TCK header whose \<^verbatim>\<open>file:\<close> line ends in a token that is not a number.\<close>

definition tck_dot_header :: "byte list" where
  "tck_dot_header =
     ascii ''mrtrix tracks'' @ [10] @ ascii ''file: .'' @ [10] @ ascii ''END'' @ [10]"

text \<open>
  The TCK header \<^verbatim>\<open>"mrtrix tracks\nfile: . 40\nEND\n"\<close> (29 bytes) padded with
  zeros to 40 bytes.
\<close>

definition tck_header40 :: "byte list" where
  "tck_header40 =
     ascii ''mrtrix tracks'' @ [10] @ ascii ''file: . 40'' @ [10] @ ascii ''END'' @ [10]
     @ replicate 11 0"

text \<open>One finite triplet, a NaN triplet, an infinity triplet: 76 bytes.\<close>

definition tck_one_vertex :: "byte list" where
  "tck_one_vertex =
     tck_header40 @ (f32_1 @ f32_2 @ f32_3) @ (f32_nan @ f32_nan @ f32_nan)
     @ (f32_inf @ f32_inf @ f32_inf)"

text \<open>
  Two streamlines, of two vertices and of one, each closed by a NaN triplet, and the
  final infinity triplet: 112 bytes.
\<close>

definition tck_two_streamlines :: "byte list" where
  "tck_two_streamlines =
     tck_header40 @ (f32_1 @ f32_2 @ f32_3) @ (f32_3 @ f32_2 @ f32_1)
     @ (f32_nan @ f32_nan @ f32_nan) @ (f32_2 @ f32_2 @ f32_2)
     @ (f32_nan @ f32_nan @ f32_nan) @ (f32_inf @ f32_inf @ f32_inf)"

text \<open>
  A stored archive entry named \<^verbatim>\<open>a\<close> with the one-byte payload \<^verbatim>\<open>x\<close>: the 30-byte
  local header with the given general-purpose flags, CRC and sizes, then the name and
  the payload (32 bytes). \<open>entry_a\<close> is the entry read from it.
\<close>

definition zip_local_a :: "byte list \<Rightarrow> byte list \<Rightarrow> byte list \<Rightarrow> byte list \<Rightarrow> byte list" where
  "zip_local_a flags crc32 csize usize =
     [0x50, 0x4B, 0x03, 0x04, 0x0A, 0x00] @ flags @ [0x00, 0x00, 0x00, 0x00, 0x00, 0x00]
     @ crc32 @ csize @ usize @ [0x01, 0x00, 0x00, 0x00] @ [0x61] @ [0x78]"

definition entry_a :: "nat \<Rightarrow> nat \<Rightarrow> nat \<Rightarrow> nat \<Rightarrow> entry" where
  "entry_a flags c cs us =
     \<lparr>signature = [0x50, 0x4B, 0x03, 0x04], version = 10, generalPurpose = flags,
      compressionMethod = 0, lastModifiedTime = 0, lastModifiedDate = 0, crc = c,
      compressedSize = cs, uncompressedSize = us, fileNameLength = 1, extraLength = 0,
      fileName = ascii ''a'', extra = [], startsAt = Some 31\<rparr>"

text \<open>The entry (no flag, sizes 1) followed by four bytes that are no ZIP signature.\<close>

definition zip_then_garbage :: "byte list" where
  "zip_then_garbage =
     zip_local_a [0x00, 0x00] [0x00, 0x00, 0x00, 0x00] [0x01, 0x00, 0x00, 0x00]
       [0x01, 0x00, 0x00, 0x00]
     @ [0xEF, 0xBE, 0xAD, 0xDE]"

text \<open>
  A data descriptor: the signature \<open>0x08074b50\<close>, CRC 7, compressed size 1, uncompressed
  size 1, and the bytes \<^verbatim>\<open>PK\<close> sixteen bytes after its start.
\<close>

definition zip_descriptor_tail :: "byte list" where
  "zip_descriptor_tail =
     [0x50, 0x4B, 0x07, 0x08, 0x07, 0x00, 0x00, 0x00, 0x01, 0x00, 0x00, 0x00,
      0x01, 0x00, 0x00, 0x00, 0x50, 0x4B, 0x00, 0x00]"

text \<open>The entry with flag bit 3 set and sizes 1 in its header, then the descriptor.\<close>

definition zip_flag3_sized :: "byte list" where
  "zip_flag3_sized =
     zip_local_a [0x08, 0x00] [0x00, 0x00, 0x00, 0x00] [0x01, 0x00, 0x00, 0x00]
       [0x01, 0x00, 0x00, 0x00]
     @ zip_descriptor_tail"

text \<open>The entry with flag bit 3 set and sizes 0 in its header, then the descriptor.\<close>

definition zip_flag3_unsized :: "byte list" where
  "zip_flag3_unsized =
     zip_local_a [0x08, 0x00] [0x00, 0x00, 0x00, 0x00] [0x00, 0x00, 0x00, 0x00]
       [0x00, 0x00, 0x00, 0x00]
     @ zip_descriptor_tail"

text \<open>
  A TRK header of 1000 bytes: magic \<^verbatim>\<open>TRAC\<close>, voxel sizes 1.0, no scalars, no
  properties, a transform matrix of zeros (so its element [3][3] is 0), version 2 and
  header size 1000.
\<close>

definition trk_header_plain :: "byte list" where
  "trk_header_plain =
     ascii ''TRAC'' @ replicate 8 0 @ f32_1 @ f32_1 @ f32_1 @ replicate 968 0
     @ [0x02, 0x00, 0x00, 0x00] @ [0xE8, 0x03, 0x00, 0x00]"

text \<open>That header and one record: the count 1 and the vertex (1, 2, 3).\<close>

definition trk_one_vertex :: "byte list" where
  "trk_one_vertex = trk_header_plain @ [0x01, 0x00, 0x00, 0x00] @ f32_1 @ f32_2 @ f32_3"

text \<open>The voxel-to-world matrix of that header: unit zoom, translation \<open>- 1 / 2\<close>.\<close>

definition zoom_half :: "jsnum list" where
  "zoom_half =
     [Fin 1, Fin 0, Fin 0, Fin (- (1 / 2)), Fin 0, Fin 1, Fin 0, Fin (- (1 / 2)),
      Fin 0, Fin 0, Fin 1, Fin (- (1 / 2)), Fin 0, Fin 0, Fin 0, Fin 1]"

text \<open>
  The variables of a TT file: an identity \<^verbatim>\<open>trans_to_mni\<close>, a \<^verbatim>\<open>voxel_size\<close>, and a
  \<^verbatim>\<open>track\<close> of one record of 16 bytes, size 3 and first point (32, 64, 96).
\<close>

definition tt_track :: "byte list" where
  "tt_track = [0x03, 0x00, 0x00, 0x00, 0x20, 0x00, 0x00, 0x00,
               0x40, 0x00, 0x00, 0x00, 0x60, 0x00, 0x00, 0x00]"

definition tt_one_point :: mat_v4 where
  "tt_one_point =
     \<lparr>trans_to_mni = Some mat4_identity, voxel_size = Some [Fin 1, Fin 1, Fin 1],
      track = Some \<lparr>ta_length = 16, ta_buffer = tt_track\<rparr>\<rparr>"

text \<open>
  A \<^verbatim>\<open>track\<close> of two records, 35 bytes. The first has size 6: the point (32, 64, 96)
  and the step (32, 32, -32), 19 bytes. The second, at byte 19, has size 3: the point
  (-32, 0, 32).
\<close>

definition tt_two_records :: "byte list" where
  "tt_two_records =
     [0x06, 0x00, 0x00, 0x00, 0x20, 0x00, 0x00, 0x00, 0x40, 0x00, 0x00, 0x00,
      0x60, 0x00, 0x00, 0x00, 0x20, 0x20, 0xE0,
      0x03, 0x00, 0x00, 0x00, 0xE0, 0xFF, 0xFF, 0xFF, 0x00, 0x00, 0x00, 0x00,
      0x20, 0x00, 0x00, 0x00]"

definition tt_two_streamlines :: mat_v4 where
  "tt_two_streamlines =
     \<lparr>trans_to_mni = Some mat4_identity, voxel_size = Some [Fin 1, Fin 1, Fin 1],
      track = Some \<lparr>ta_length = 35, ta_buffer = tt_two_records\<rparr>\<rparr>"

text \<open>
  A binary VTK file with one point (1, 2, 3) and one line of one vertex, whose index
  is \<open>-1\<close> (\<^verbatim>\<open>FF FF FF FF\<close>): 99 bytes.
\<close>

definition vtk_negative_index :: "byte list" where
  "vtk_negative_index =
     ascii ''# vtk DataFile Version 3.0'' @ [10] @ ascii ''c'' @ [10] @ ascii ''BINARY'' @ [10]
     @ ascii ''DATASET POLYDATA'' @ [10] @ ascii ''POINTS 1 float'' @ [10]
     @ [0x3F, 0x80, 0x00, 0x00, 0x40, 0x00, 0x00, 0x00, 0x40, 0x40, 0x00, 0x00] @ [10]
     @ ascii ''LINES 1 2'' @ [10]
     @ [0x00, 0x00, 0x00, 0x01] @ [0xFF, 0xFF, 0xFF, 0xFF]"










section \<open>Properties\<close>

subsection \<open>Evaluation of the line reader\<close>

lemma scan_while_takeWhile:
  "scan_while p bytes pos = pos + length (takeWhile p (drop pos bytes))"
proof (induction p bytes pos rule: scan_while.induct)
  case (1 p bytes pos)
  show ?case
  proof (cases "pos < length bytes \<and> p (bytes ! pos)")
    case True
    then have d: "drop pos bytes = bytes ! pos # drop (Suc pos) bytes"
      by (simp add: Cons_nth_drop_Suc)
    from 1 [OF True] True show ?thesis
      by (subst scan_while.simps) (simp add: d)
  next
    case False
    then show ?thesis
      by (subst scan_while.simps) (auto simp: hd_drop_conv_nth takeWhile_eq_Nil_iff not_less)
  qed
qed

lemmas readStr_eval = readStr_def scan_while_takeWhile slice_def ascii_def Let_def

lemmas parseInt_eval =
  parseInt_def ascii_def startsWith_def is_space_def is_digit_def digit_val_def
  digits_val_def Let_def

lemma includes_mrtrix: "str_includes (ascii ''mrtrix tracks'') (ascii ''mrtrix tracks'')"
  by (simp add: ascii_def startsWith_def)

subsection \<open>readTCK with a file offset that is not a number\<close>

lemma tck_dot_header_bytes:
  "tck_dot_header @ body =
     109 # 114 # 116 # 114 # 105 # 120 # 32 # 116 # 114 # 97 # 99 # 107 # 115 # 10 #
     102 # 105 # 108 # 101 # 58 # 32 # 46 # 10 # 69 # 78 # 68 # 10 # body"
  by (simp add: tck_dot_header_def ascii_def)

lemma length_tck_dot_header: "length tck_dot_header = 26"
  by (simp add: tck_dot_header_def ascii_def)

lemma tck_dot_line1: "readStr (tck_dot_header @ body) 0 = (ascii ''mrtrix tracks'', 14)"
  by (simp add: tck_dot_header_bytes readStr_eval)

lemma tck_dot_line2: "readStr (tck_dot_header @ body) 14 = (ascii ''file: .'', 22)"
  by (simp add: tck_dot_header_bytes readStr_eval)

lemma tck_dot_line3: "readStr (tck_dot_header @ body) 22 = (ascii ''END'', 26)"
  by (simp add: tck_dot_header_bytes readStr_eval)

lemma parseInt_dot: "parseInt (ascii ''.'') = None"
  by (simp add: parseInt_eval)

lemma tck_dot_offset:
  "tck_header (tck_dot_header @ body) 14 (ascii ''mrtrix tracks'') (Some (- 1)) = None"
  apply (subst tck_header.simps,
         simp add: length_tck_dot_header tck_dot_line2 ascii_def startsWith_def toLowerCase_def)
  apply (simp add: parseInt_dot [unfolded ascii_def, simplified])
  apply (subst tck_header.simps,
         simp add: length_tck_dot_header tck_dot_line3 ascii_def startsWith_def toLowerCase_def)
  apply (subst tck_header.simps,
         simp add: length_tck_dot_header tck_dot_line3 ascii_def startsWith_def toLowerCase_def)
  done

text \<open>
  Claim C10. There is a TCK header that looks well formed and whose \<^verbatim>\<open>file:\<close> line
  ends in a token that is not a number (\<^verbatim>\<open>file: .\<close>) on which \<^verbatim>\<open>readTCK\<close> neither
  throws nor reads any vertex: \<^verbatim>\<open>parseInt\<close> gives NaN, so \<^verbatim>\<open>offset\<close> is NaN after the
  header loop, the test \<^verbatim>\<open>offset < 20\<close> is false, the body loop does not run, and the
  result has empty \<^verbatim>\<open>pts\<close> and empty \<^verbatim>\<open>offsetPt0\<close>, whatever bytes follow the header.
\<close>

theorem readTCK_nan_offset_returns_empty:
  "parseInt (ascii ''.'') = None \<and>
   tck_header (tck_dot_header @ body) 14 (ascii ''mrtrix tracks'') (Some (- 1)) = None \<and>
   readTCK (tck_dot_header @ body) = Inr \<lparr>pts = [], offsetPt0 = []\<rparr>"
  by (simp add: parseInt_dot tck_dot_offset readTCK_def length_tck_dot_header
        tck_dot_line1 includes_mrtrix Let_def)

subsection \<open>readTCK on well-formed files\<close>

lemmas f32_bytes = f32_1_def f32_2_def f32_3_def f32_nan_def f32_inf_def

lemma tck_header40_bytes:
  "tck_header40 @ body =
     109 # 114 # 116 # 114 # 105 # 120 # 32 # 116 # 114 # 97 # 99 # 107 # 115 # 10 #
     102 # 105 # 108 # 101 # 58 # 32 # 46 # 32 # 52 # 48 # 10 # 69 # 78 # 68 # 10 #
     0 # 0 # 0 # 0 # 0 # 0 # 0 # 0 # 0 # 0 # 0 # body"
  by (simp add: tck_header40_def ascii_def eval_nat_numeral)

lemma length_tck_header40: "length tck_header40 = 40"
  by (simp add: tck_header40_def ascii_def)

lemma tck40_line1: "readStr (tck_header40 @ body) 0 = (ascii ''mrtrix tracks'', 14)"
  by (simp add: tck_header40_bytes readStr_eval)

lemma tck40_line2: "readStr (tck_header40 @ body) 14 = (ascii ''file: . 40'', 25)"
  by (simp add: tck_header40_bytes readStr_eval)

lemma tck40_line3: "readStr (tck_header40 @ body) 25 = (ascii ''END'', 29)"
  by (simp add: tck_header40_bytes readStr_eval)

lemma parseInt_40: "parseInt (ascii ''40'') = Some 40"
  by (simp add: parseInt_eval)

lemma tck40_offset:
  "tck_header (tck_header40 @ body) 14 (ascii ''mrtrix tracks'') (Some (- 1)) = Some 40"
  apply (subst tck_header.simps,
         simp add: length_tck_header40 tck40_line2 ascii_def startsWith_def toLowerCase_def)
  apply (simp add: parseInt_40 [unfolded ascii_def, simplified])
  apply (subst tck_header.simps,
         simp add: length_tck_header40 tck40_line3 ascii_def startsWith_def toLowerCase_def)
  apply (subst tck_header.simps,
         simp add: length_tck_header40 tck40_line3 ascii_def startsWith_def toLowerCase_def)
  done

text \<open>After this header the body loop starts at byte 40 with \<^verbatim>\<open>noffset = 0\<close>.\<close>

lemma readTCK_header40:
  "readTCK (tck_header40 @ body) =
     err_bind
       (tck_body (tck_header40 @ body)
          \<lparr>t_pos = 40, t_npt = 0, t_noffset = 0, t_npt3 = 0,
           t_pts = replicate ((40 + length body) div 4) (Fin 0),
           t_offsetPt0 = (replicate ((40 + length body) div 16) 0)[0 := 0]\<rparr>)
       (\<lambda>st. Inr \<lparr>pts = take (t_npt3 st) (t_pts st),
                   offsetPt0 = take (t_noffset st) (t_offsetPt0 st)\<rparr>)"
  by (simp add: readTCK_def length_tck_header40 tck40_line1 includes_mrtrix tck40_offset Let_def)

lemma dv_uint_header40:
  "40 \<le> off \<Longrightarrow>
   dv_uint n (tck_header40 @ body) off little = dv_uint n body (off - 40) little"
  by (simp add: dv_uint_def length_tck_header40) auto

lemmas tck_body_eval = length_tck_header40 getFloat32_def dv_uint_header40 dv_uint_def
  err_bind_def f32_of_bits_def Let_def isFinite_def isNaN_def

lemma tck_one_vertex_bytes:
  "tck_one_vertex = tck_header40 @
     [0x00, 0x00, 0x80, 0x3F, 0x00, 0x00, 0x00, 0x40, 0x00, 0x00, 0x40, 0x40,
      0x00, 0x00, 0xC0, 0x7F, 0x00, 0x00, 0xC0, 0x7F, 0x00, 0x00, 0xC0, 0x7F,
      0x00, 0x00, 0x80, 0x7F, 0x00, 0x00, 0x80, 0x7F, 0x00, 0x00, 0x80, 0x7F]"
  by (simp add: tck_one_vertex_def f32_bytes)

lemma tck_two_streamlines_bytes:
  "tck_two_streamlines = tck_header40 @
     [0x00, 0x00, 0x80, 0x3F, 0x00, 0x00, 0x00, 0x40, 0x00, 0x00, 0x40, 0x40,
      0x00, 0x00, 0x40, 0x40, 0x00, 0x00, 0x00, 0x40, 0x00, 0x00, 0x80, 0x3F,
      0x00, 0x00, 0xC0, 0x7F, 0x00, 0x00, 0xC0, 0x7F, 0x00, 0x00, 0xC0, 0x7F,
      0x00, 0x00, 0x00, 0x40, 0x00, 0x00, 0x00, 0x40, 0x00, 0x00, 0x00, 0x40,
      0x00, 0x00, 0xC0, 0x7F, 0x00, 0x00, 0xC0, 0x7F, 0x00, 0x00, 0xC0, 0x7F,
      0x00, 0x00, 0x80, 0x7F, 0x00, 0x00, 0x80, 0x7F, 0x00, 0x00, 0x80, 0x7F]"
  by (simp add: tck_two_streamlines_def f32_bytes)

lemma readTCK_two_streamlines:
  "readTCK tck_two_streamlines =
     Inr \<lparr>pts = [Fin 1, Fin 2, Fin 3, Fin 3, Fin 2, Fin 1, Fin 2, Fin 2, Fin 2],
          offsetPt0 = [2, 3]\<rparr>"
  apply (simp only: tck_two_streamlines_bytes readTCK_header40)
  apply (subst tck_body.simps, simp add: tck_body_eval)+
  apply (simp add: eval_nat_numeral)
  done

text \<open>
  Claim C1 (the code departs from it). The claim: whenever a decoder returns a
  tractogram, \<^verbatim>\<open>offsetPt0\<close> starts at 0, never decreases and ends at
  \<^verbatim>\<open>pts.length / 3\<close>. \<^verbatim>\<open>readTCK\<close> on a well-formed file of two streamlines (two
  vertices, then one) returns three vertices and the offsets \<open>[2, 3]\<close>: the initial
  \<^verbatim>\<open>offsetPt0[0] = 0\<close> is overwritten, because \<^verbatim>\<open>noffset\<close> starts at 0, so the offsets
  do not start at 0.
\<close>

theorem readTCK_breaks_fence_post:
  "\<exists>t. readTCK tck_two_streamlines = Inr t \<and> offsetPt0 t = [2, 3] \<and>
       length (pts t) = 9 \<and> \<not> fence_post t"
  by (simp add: readTCK_two_streamlines fence_post_def)

text \<open>
  Claim C7 (the code departs from it). The claim: the 40-byte header followed by one
  finite triplet, a NaN triplet and an infinity triplet decodes to one streamline of one
  vertex. \<^verbatim>\<open>readTCK\<close> returns the vertex, \<^verbatim>\<open>pts\<close> of length 3, but \<^verbatim>\<open>offsetPt0\<close> is
  \<open>[1]\<close>, not \<open>[0, 1]\<close>: the NaN triplet writes the vertex count over the initial 0, and
  the loop test \<^verbatim>\<open>pos + 12 < len\<close> stops before the last triplet of the buffer. With
  one more byte after the infinity triplet the offsets are \<open>[1, 1]\<close>.
\<close>

theorem readTCK_one_vertex_offsets:
  "readTCK tck_one_vertex = Inr \<lparr>pts = [Fin 1, Fin 2, Fin 3], offsetPt0 = [1]\<rparr> \<and>
   readTCK (tck_one_vertex @ [0]) = Inr \<lparr>pts = [Fin 1, Fin 2, Fin 3], offsetPt0 = [1, 1]\<rparr>"
  apply (simp only: tck_one_vertex_bytes readTCK_header40 append_assoc)
  apply (rule conjI)
   apply ((subst tck_body.simps, simp add: tck_body_eval)+, simp add: eval_nat_numeral)
  apply ((subst tck_body.simps, simp add: tck_body_eval)+, simp add: eval_nat_numeral)
  done

subsection \<open>The archive reader\<close>

lemmas dv_eval = getUint32_def getUint16_def getUint8_def getBigUint64_def dv_uint_def
  err_bind_def readString_def

lemmas zip_bytes = zip_local_a_def zip_descriptor_tail_def

lemma zip_read_local:
  "i < length dv \<Longrightarrow> getUint32 dv i True = Inr 0x04034b50 \<Longrightarrow>
   read_local dv i = Inr (e, n) \<Longrightarrow>
   zip_read dv \<lparr>index = i, localFiles = fs, centralDirectories = cs,
                endOfCentralDirectory = None\<rparr> =
   zip_read dv \<lparr>index = n, localFiles = fs @ [e], centralDirectories = cs,
                endOfCentralDirectory = None\<rparr>"
  by (subst zip_read.simps) (simp add: err_bind_def)

lemma zip_read_other:
  "endOfCentralDirectory z = None \<Longrightarrow> index z < length dv \<Longrightarrow>
   getUint32 dv (index z) True = Inr sg \<Longrightarrow>
   sg \<noteq> 0x04034b50 \<Longrightarrow> sg \<noteq> 0x02014b50 \<Longrightarrow> sg \<noteq> 0x06054b50 \<Longrightarrow>
   sg \<noteq> 0x06064b50 \<Longrightarrow>
   zip_read dv z = Inr z"
  by (subst zip_read.simps) (simp add: err_bind_def)

lemma zip_read_end: "\<not> index z < length dv \<Longrightarrow> zip_read dv z = Inr z"
  by (subst zip_read.simps) simp

lemma length_zip_then_garbage: "length zip_then_garbage = 36"
  by (simp add: zip_then_garbage_def zip_bytes)

lemma zip_then_garbage_0: "getUint32 zip_then_garbage 0 True = Inr 0x04034b50"
  by (simp add: zip_then_garbage_def zip_bytes dv_eval)

lemma zip_then_garbage_32: "getUint32 zip_then_garbage 32 True = Inr 0xDEADBEEF"
  by (simp add: zip_then_garbage_def zip_bytes dv_eval)

lemma readLocalFile_zip_then_garbage:
  "readLocalFile zip_then_garbage 0 = Inr ((entry_a 0 0 1 1)\<lparr>startsAt := None\<rparr>)"
  by (simp add: readLocalFile_def zip_then_garbage_def zip_bytes dv_eval entry_a_def
        ascii_def Let_def)

lemma read_local_zip_then_garbage: "read_local zip_then_garbage 0 = Inr (entry_a 0 0 1 1, 32)"
  by (simp add: read_local_def readLocalFile_zip_then_garbage err_bind_def Let_def entry_a_def)

text \<open>
  Claim C2, as the specification states it: a 4-byte value at the cursor that is none of
  the four signatures raises a fatal error, and the reader does not stop silently with
  the entries found so far. On an archive of one stored entry followed by the bytes
  \<^verbatim>\<open>EF BE AD DE\<close> the reader returns normally, with that entry.
\<close>

theorem zip_garbage_returns_entries:
  "getUint32 zip_then_garbage 32 True = Inr 0xDEADBEEF \<and>
   zip_entries zip_then_garbage = Inr [entry_a 0 0 1 1]"
proof -
  have "zip_read zip_then_garbage
          \<lparr>index = 0, localFiles = [], centralDirectories = [], endOfCentralDirectory = None\<rparr>
        = zip_read zip_then_garbage
          \<lparr>index = 32, localFiles = [] @ [entry_a 0 0 1 1], centralDirectories = [],
           endOfCentralDirectory = None\<rparr>"
    by (rule zip_read_local [OF _ zip_then_garbage_0 read_local_zip_then_garbage])
       (simp add: length_zip_then_garbage)
  also have "\<dots> = Inr \<lparr>index = 32, localFiles = [] @ [entry_a 0 0 1 1],
                         centralDirectories = [], endOfCentralDirectory = None\<rparr>"
    by (rule zip_read_other [where sg = "0xDEADBEEF"])
       (simp_all add: length_zip_then_garbage zip_then_garbage_32)
  finally show ?thesis by (simp add: zip_entries_def err_bind_def zip_then_garbage_32)
qed

text \<open>
  Claim C2, amended. When the scan of \<^verbatim>\<open>read\<close> reads at its cursor a 4-byte value that
  is none of \<open>0x04034b50\<close>, \<open>0x02014b50\<close>, \<open>0x06054b50\<close>, \<open>0x06064b50\<close>, it leaves the
  loop (the source logs the value with \<^verbatim>\<open>console.error\<close> and breaks): the reader
  returns normally in the state it has reached, with the entries found so far, and no
  error reaches the caller.
\<close>

theorem zip_unknown_signature_stops:
  assumes "endOfCentralDirectory z = None" and "index z < length dv"
    and "getUint32 dv (index z) True = Inr sg"
    and "sg \<notin> {0x04034b50, 0x02014b50, 0x06054b50, 0x06064b50}"
  shows "zip_read dv z = Inr z"
  using assms by (subst zip_read.simps) (simp add: err_bind_def)

theorem zip_unknown_signature_stops_witness:
  "index \<lparr>index = 32, localFiles = [entry_a 0 0 1 1], centralDirectories = [],
          endOfCentralDirectory = None\<rparr> < length zip_then_garbage \<and>
   getUint32 zip_then_garbage 32 True = Inr 0xDEADBEEF \<and>
   (0xDEADBEEF :: nat) \<notin> {0x04034b50, 0x02014b50, 0x06054b50, 0x06064b50} \<and>
   zip_read zip_then_garbage
     \<lparr>index = 32, localFiles = [entry_a 0 0 1 1], centralDirectories = [],
      endOfCentralDirectory = None\<rparr> =
   Inr \<lparr>index = 32, localFiles = [entry_a 0 0 1 1], centralDirectories = [],
        endOfCentralDirectory = None\<rparr>"
  using zip_unknown_signature_stops
          [of "\<lparr>index = 32, localFiles = [entry_a 0 0 1 1], centralDirectories = [],
                endOfCentralDirectory = None\<rparr>" zip_then_garbage "0xDEADBEEF"]
  by (simp add: length_zip_then_garbage zip_then_garbage_32)

subsection \<open>Data descriptors\<close>

lemma scan_descriptor_found:
  "is_descriptor dv p \<Longrightarrow> scan_descriptor dv p = Inr (p + 4)"
  by (subst scan_descriptor.simps) (simp add: is_descriptor_def err_bind_def)

lemma scan_descriptor_skip:
  assumes "p + 20 \<le> length dv" and "\<not> is_descriptor dv p"
  shows "scan_descriptor dv p = scan_descriptor dv (p + 1)"
proof -
  from assms(1) obtain sg where sg: "getUint32 dv p True = Inr sg"
    by (auto simp: getUint32_def dv_uint_def)
  from assms(1) obtain pk where pk: "getUint16 dv (p + 16) True = Inr pk"
    by (auto simp: getUint16_def dv_uint_def)
  from assms sg pk show ?thesis
    by (subst scan_descriptor.simps) (auto simp: is_descriptor_def err_bind_def)
qed

lemma scan_descriptor_first:
  "s \<le> p \<Longrightarrow> is_descriptor dv p \<Longrightarrow>
   (\<forall>q. s \<le> q \<and> q < p \<longrightarrow> \<not> is_descriptor dv q) \<Longrightarrow>
   scan_descriptor dv s = Inr (p + 4)"
proof (induction "p - s" arbitrary: s)
  case 0
  then have "s = p" by simp
  with 0 show ?case by (simp add: scan_descriptor_found)
next
  case (Suc n)
  then have lt: "s < p" by simp
  with Suc.prems have nd: "\<not> is_descriptor dv s" by simp
  from Suc.prems(2) lt have "s + 20 \<le> length dv" by (simp add: is_descriptor_def)
  then have "scan_descriptor dv s = scan_descriptor dv (s + 1)"
    using nd by (rule scan_descriptor_skip)
  moreover have "scan_descriptor dv (s + 1) = Inr (p + 4)"
  proof (rule Suc.hyps(1))
    show "n = p - (s + 1)" using Suc.hyps(2) by simp
    show "s + 1 \<le> p" using lt by simp
    show "is_descriptor dv p" by (rule Suc.prems(2))
    show "\<forall>q. s + 1 \<le> q \<and> q < p \<longrightarrow> \<not> is_descriptor dv q" using Suc.prems(3) by simp
  qed
  ultimately show ?case by simp
qed

lemma length_zip_flag3_sized: "length zip_flag3_sized = 52"
  by (simp add: zip_flag3_sized_def zip_bytes)

lemma zip_flag3_sized_reads:
  "getUint32 zip_flag3_sized 0 True = Inr 0x04034b50"
  "getUint32 zip_flag3_sized 32 True = Inr 0x08074b50"
  "getUint32 zip_flag3_sized 36 True = Inr 7"
  "getUint16 zip_flag3_sized 48 True = Inr 0x4b50"
  by (simp_all add: zip_flag3_sized_def zip_bytes dv_eval)

lemma readLocalFile_zip_flag3_sized:
  "readLocalFile zip_flag3_sized 0 = Inr ((entry_a 8 0 1 1)\<lparr>startsAt := None\<rparr>)"
  by (simp add: readLocalFile_def zip_flag3_sized_def zip_bytes dv_eval entry_a_def
        ascii_def Let_def)

lemma read_local_zip_flag3_sized: "read_local zip_flag3_sized 0 = Inr (entry_a 8 0 1 1, 32)"
  by (simp add: read_local_def readLocalFile_zip_flag3_sized err_bind_def Let_def entry_a_def)

lemma zip_entries_flag3_sized: "zip_entries zip_flag3_sized = Inr [entry_a 8 0 1 1]"
proof -
  have "zip_read zip_flag3_sized
          \<lparr>index = 0, localFiles = [], centralDirectories = [], endOfCentralDirectory = None\<rparr>
        = zip_read zip_flag3_sized
          \<lparr>index = 32, localFiles = [] @ [entry_a 8 0 1 1], centralDirectories = [],
           endOfCentralDirectory = None\<rparr>"
    by (rule zip_read_local [OF _ zip_flag3_sized_reads(1) read_local_zip_flag3_sized])
       (simp add: length_zip_flag3_sized)
  also have "\<dots> = Inr \<lparr>index = 32, localFiles = [] @ [entry_a 8 0 1 1],
                         centralDirectories = [], endOfCentralDirectory = None\<rparr>"
    by (rule zip_read_other [where sg = "0x08074b50"])
       (simp_all add: length_zip_flag3_sized zip_flag3_sized_reads)
  finally show ?thesis by (simp add: zip_entries_def err_bind_def)
qed

text \<open>
  Claim C4, as the specification states it: for every local entry with flag bit 3 set
  the reader scans for the data descriptor and takes CRC and sizes from it. An entry
  with bit 3 set whose header gives the compressed size 1 is read without a scan: it
  keeps the CRC 0 of its header although the descriptor that follows its payload, at
  byte 32, carries the CRC 7.
\<close>

theorem zip_flag3_sized_keeps_header:
  "zip_entries zip_flag3_sized = Inr [entry_a 8 0 1 1] \<and>
   generalPurpose (entry_a 8 0 1 1) AND 0x0008 \<noteq> 0 \<and>
   is_descriptor zip_flag3_sized 32 \<and>
   getUint32 zip_flag3_sized 36 True = Inr 7 \<and> crc (entry_a 8 0 1 1) = 0"
  by (simp add: zip_entries_flag3_sized is_descriptor_def length_zip_flag3_sized
        zip_flag3_sized_reads entry_a_def)

text \<open>
  Claim C4, amended. For every local entry whose flag bit 3 is set and whose header
  gives the compressed size 0, the reader scans forward, byte by byte, from the start
  \<open>s\<close> of the payload; when \<open>p\<close> is the first position from \<open>s\<close> on that holds the
  signature \<open>0x08074b50\<close> with \<open>0x4b50\<close> at \<open>p + 16\<close> (and 20 bytes are left), the three
  32-bit fields after the signature become the CRC, the compressed size and the
  uncompressed size of the entry, and the cursor moves to \<open>p + 16\<close>.
\<close>

theorem read_local_data_descriptor:
  assumes "readLocalFile dv i = Inr e"
    and "generalPurpose e AND 0x0008 \<noteq> 0" and "compressedSize e = 0"
    and "s = i + 30 + fileNameLength e + extraLength e"
    and "s \<le> p" and "is_descriptor dv p"
    and "\<forall>q. s \<le> q \<and> q < p \<longrightarrow> \<not> is_descriptor dv q"
  shows "\<exists>c cs us.
           getUint32 dv (p + 4) True = Inr c \<and> getUint32 dv (p + 8) True = Inr cs \<and>
           getUint32 dv (p + 12) True = Inr us \<and>
           read_local dv i =
             Inr (e\<lparr>startsAt := Some s, crc := c, compressedSize := cs,
                    uncompressedSize := us\<rparr>, p + 16)"
proof -
  from assms have sc: "scan_descriptor dv s = Inr (p + 4)"
    by (intro scan_descriptor_first) simp_all
  from assms have len: "p + 20 \<le> length dv" by (simp add: is_descriptor_def)
  then obtain c where c: "getUint32 dv (p + 4) True = Inr c"
    by (auto simp: getUint32_def dv_uint_def)
  from len obtain cs where cs: "getUint32 dv (p + 8) True = Inr cs"
    by (auto simp: getUint32_def dv_uint_def)
  from len obtain us where us: "getUint32 dv (p + 12) True = Inr us"
    by (auto simp: getUint32_def dv_uint_def)
  have "read_local dv i =
      Inr (e\<lparr>startsAt := Some s, crc := c, compressedSize := cs, uncompressedSize := us\<rparr>,
           p + 16)"
    using assms sc c cs us
    by (simp add: read_local_def err_bind_def Let_def add.assoc)
  with c cs us show ?thesis by blast
qed

lemma readLocalFile_zip_flag3_unsized:
  "readLocalFile zip_flag3_unsized 0 = Inr ((entry_a 8 0 0 0)\<lparr>startsAt := None\<rparr>)"
  by (simp add: readLocalFile_def zip_flag3_unsized_def zip_bytes dv_eval entry_a_def
        ascii_def Let_def)

lemma zip_flag3_unsized_31: "\<not> is_descriptor zip_flag3_unsized 31"
  by (simp add: is_descriptor_def zip_flag3_unsized_def zip_bytes dv_eval)

lemma zip_flag3_unsized_32: "is_descriptor zip_flag3_unsized 32"
  by (simp add: is_descriptor_def zip_flag3_unsized_def zip_bytes dv_eval)

lemma zip_flag3_unsized_fields:
  "getUint32 zip_flag3_unsized (32 + 4) True = Inr 7"
  "getUint32 zip_flag3_unsized (32 + 8) True = Inr 1"
  "getUint32 zip_flag3_unsized (32 + 12) True = Inr 1"
  by (simp_all add: zip_flag3_unsized_def zip_bytes dv_eval)

theorem read_local_data_descriptor_witness:
  "readLocalFile zip_flag3_unsized 0 = Inr ((entry_a 8 0 0 0)\<lparr>startsAt := None\<rparr>) \<and>
   is_descriptor zip_flag3_unsized 32 \<and> \<not> is_descriptor zip_flag3_unsized 31 \<and>
   read_local zip_flag3_unsized 0 = Inr (entry_a 8 7 1 1, 48)"
proof -
  let ?e = "(entry_a 8 0 0 0)\<lparr>startsAt := None\<rparr>"
  have q: "\<forall>q. 31 \<le> q \<and> q < 32 \<longrightarrow> \<not> is_descriptor zip_flag3_unsized q"
  proof (intro allI impI)
    fix q :: nat assume "31 \<le> q \<and> q < 32"
    then have "q = 31" by simp
    then show "\<not> is_descriptor zip_flag3_unsized q" by (simp add: zip_flag3_unsized_31)
  qed
  have h2: "generalPurpose ?e AND 0x0008 \<noteq> 0" by (simp add: entry_a_def)
  have h3: "compressedSize ?e = 0" by (simp add: entry_a_def)
  have h4: "31 = 0 + 30 + fileNameLength ?e + extraLength ?e" by (simp add: entry_a_def)
  have h5: "(31::nat) \<le> 32" by simp
  from read_local_data_descriptor
         [OF readLocalFile_zip_flag3_unsized h2 h3 h4 h5 zip_flag3_unsized_32 q]
  obtain c cs us where
    "getUint32 zip_flag3_unsized (32 + 4) True = Inr c"
    "getUint32 zip_flag3_unsized (32 + 8) True = Inr cs"
    "getUint32 zip_flag3_unsized (32 + 12) True = Inr us"
    and r: "read_local zip_flag3_unsized 0 =
       Inr (?e\<lparr>startsAt := Some 31, crc := c, compressedSize := cs, uncompressedSize := us\<rparr>,
            32 + 16)"
    by blast
  then have "c = 7" "cs = 1" "us = 1" by (simp_all only: zip_flag3_unsized_fields sum.inject)
  with r have "read_local zip_flag3_unsized 0 = Inr (entry_a 8 7 1 1, 48)"
    by (simp add: entry_a_def)
  then show ?thesis
    by (simp add: readLocalFile_zip_flag3_unsized zip_flag3_unsized_32 zip_flag3_unsized_31)
qed

subsection \<open>readTRK on short buffers\<close>

lemma dv_uint_error: "dv_uint n buf off little = Inl e \<Longrightarrow> e = RangeError"
  by (simp add: dv_uint_def split: if_splits)

lemma trk_decode_short:
  assumes "length b < 1000"
  shows "trk_decode b magic = Inl RangeError"
proof -
  have g: "getUint32 b 996 True = Inl RangeError"
    using assms by (simp add: getUint32_def dv_uint_def)
  show ?thesis
  proof (cases "getUint32 b 992 True")
    case (Inl e)
    then have "e = RangeError" by (simp add: getUint32_def dv_uint_error)
    with Inl show ?thesis by (simp add: trk_decode_def err_bind_def)
  next
    case (Inr v)
    with g show ?thesis by (simp add: trk_decode_def err_bind_def)
  qed
qed

text \<open>The sibling decoder \<^verbatim>\<open>readTCK\<close> tests the length before it reads anything.\<close>

lemma readTCK_too_small:
  "length buffer < 20 \<Longrightarrow> readTCK buffer = Inl (Error ''File too small to be TCK: bytes = '')"
  by (simp add: readTCK_def)

text \<open>
  Claim C3 (the code departs from it). The claim: a buffer shorter than a format's
  minimum length makes the decoder fail with the error of a truncated input, and no
  decoder reads outside a too-short buffer, \<^verbatim>\<open>readTRK\<close> below 1000 bytes in particular.
  \<^verbatim>\<open>readTRK\<close> has no length test: on every buffer that starts with \<^verbatim>\<open>TRAC\<close> and has at
  most 999 bytes it reads the \<^verbatim>\<open>DataView\<close> at offset 992 or 996, outside the buffer,
  and what reaches the caller is the runtime's \<open>RangeError\<close>.
\<close>

theorem readTRK_short_buffer_range_error:
  "readTRK decompress (ascii ''TRAC'' @ take 995 rest) = Inl RangeError"
proof -
  let ?b = "ascii ''TRAC'' @ take 995 rest"
  have len: "length ?b < 1000" by (simp add: ascii_def)
  have m: "getUint32 ?b 0 True = Inr 1128354388"
    by (simp add: getUint32_def dv_uint_def ascii_def)
  from m trk_decode_short [OF len] show ?thesis by (simp add: readTRK_def err_bind_def)
qed

subsection \<open>readTRK on the one-vertex file\<close>

lemma length_trk_header_plain: "length trk_header_plain = 1000"
  by (simp add: trk_header_plain_def ascii_def f32_bytes)

lemma le_val_zeros [simp]: "le_val (replicate n 0) = 0"
  by (induction n) simp_all

lemmas trk_hdr_eval = trk_header_plain_def ascii_def f32_bytes dv_uint_def getUint32_def
  getInt16_def getFloat32_def err_bind_def to_signed_def f32_of_bits_def Let_def

lemmas js_eval = js_mul_def js_add_def js_div_def is_zero_def is_inf_def is_neg_def isNaN_def
  isFinite_def rat_of_def mk_zero_def mk_inf_def

lemma trk_plain_magic: "getUint32 (trk_header_plain @ body) 0 True = Inr 1128354388"
  by (simp add: trk_hdr_eval)

lemma trk_plain_vers: "getUint32 (trk_header_plain @ body) 992 True = Inr 2"
  by (simp add: trk_hdr_eval)

lemma trk_plain_hdr_sz: "getUint32 (trk_header_plain @ body) 996 True = Inr 1000"
  by (simp add: trk_hdr_eval)

lemma trk_plain_n_scalars: "getInt16 (trk_header_plain @ body) 36 True = Inr 0"
  by (simp add: trk_hdr_eval)

lemma trk_plain_n_properties: "getInt16 (trk_header_plain @ body) 238 True = Inr 0"
  by (simp add: trk_hdr_eval)

lemma trk_plain_voxel:
  "getFloat32 (trk_header_plain @ body) 12 True = Inr (Fin 1)"
  "getFloat32 (trk_header_plain @ body) 16 True = Inr (Fin 1)"
  "getFloat32 (trk_header_plain @ body) 20 True = Inr (Fin 1)"
  by (simp_all add: trk_hdr_eval)

lemma read_floats_numeral:
  "read_floats buffer off (numeral k) =
     err_bind (getFloat32 buffer off True) (\<lambda>v.
     err_bind (read_floats buffer (off + 4) (pred_numeral k)) (\<lambda>vs. Inr (v # vs)))"
  by (simp add: numeral_eq_Suc)

lemma trk_plain_mat:
  "read_floats (trk_header_plain @ body) 440 16 =
     Inr [Fin 0, Fin 0, Fin 0, Fin 0, Fin 0, Fin 0, Fin 0, Fin 0,
          Fin 0, Fin 0, Fin 0, Fin 0, Fin 0, Fin 0, Fin 0, Fin 0]"
  by (simp add: read_floats_numeral trk_hdr_eval)

lemma trk_plain_body: "drop 1000 (trk_header_plain @ body) = body"
  by (simp add: length_trk_header_plain)

text \<open>The matrix of the header is unset, and the identity takes its place.\<close>

lemma zoom_half_identity:
  "mat4_mul
     [Fin 1, Fin 0, Fin 0, Fin (- (1 / 2)), Fin 0, Fin 1, Fin 0, Fin (- (1 / 2)),
      Fin 0, Fin 0, Fin 1, Fin (- (1 / 2)), Fin 0, Fin 0, Fin 0, Fin 1]
     mat4_identity = zoom_half"
  by (simp add: mat4_mul_def mat4_row_def mat4_identity_def js_eval zoom_half_def)

lemma trk_decode_plain:
  "trk_decode (trk_header_plain @ body) 1128354388 =
     (if length body mod 4 \<noteq> 0 then Inl RangeError
      else
        let i32 = words_of body; ntracks = length i32 in
        if ntracks < 1 then Inl (Error ''Empty TRK file.'')
        else
          let st = trk_scan i32 zoom_half
                     \<lparr>k_i = 0, k_npt = 0, k_noffset = 0, k_npt3 = 0,
                      k_pts = replicate (length i32) (Fin 0),
                      k_offsetPt0 = replicate (length i32 div 4) 0,
                      k_dpv = [], k_dps = []\<rparr>;
              offs = (k_offsetPt0 st)[k_noffset st := of_nat (k_npt st)];
              noffset = k_noffset st + 1
          in Inr \<lparr>pts = take (k_npt3 st) (k_pts st), offsetPt0 = take noffset offs,
                  dps = k_dps st, dpv = k_dpv st\<rparr>)"
  unfolding trk_decode_def
  apply (simp only: trk_plain_vers trk_plain_hdr_sz trk_plain_n_scalars trk_plain_n_properties
           trk_plain_voxel trk_plain_mat trk_plain_body err_bind_def sum.case)
  apply (simp add: trk_names_def zoom_half_identity js_eval Let_def)
  done

lemma trk_one_vertex_words:
  "words_of ([0x01, 0x00, 0x00, 0x00] @ f32_1 @ f32_2 @ f32_3) =
     [1, 0x3F800000, 0x40000000, 0x40400000]"
  by (simp add: f32_bytes)

lemma f32_of_bits_123:
  "f32_of_bits 0x3F800000 = Fin 1" "f32_of_bits 0x40000000 = Fin 2"
  "f32_of_bits 0x40400000 = Fin 3"
  by (simp_all add: f32_of_bits_def Let_def)

lemma trk_one_vertex_point:
  "trk_vertex [1, 0x3F800000, 0x40000000, 0x40400000] zoom_half
     \<lparr>k_i = 1, k_npt = 0, k_noffset = 1, k_npt3 = 0,
      k_pts = [Fin 0, Fin 0, Fin 0, Fin 0], k_offsetPt0 = [0], k_dpv = [], k_dps = []\<rparr> =
   \<lparr>k_i = 4, k_npt = 1, k_noffset = 1, k_npt3 = 3,
    k_pts = [Fin (1 / 2), Fin (3 / 2), Fin (5 / 2), Fin 0], k_offsetPt0 = [0],
    k_dpv = [], k_dps = []\<rparr>"
  by (simp add: trk_vertex_def f32_get_def f32_of_bits_123 zoom_half_def js_eval Let_def)

lemma trk_one_vertex_streamline:
  "trk_streamline [1, 0x3F800000, 0x40000000, 0x40400000] zoom_half
     \<lparr>k_i = 0, k_npt = 0, k_noffset = 0, k_npt3 = 0,
      k_pts = [Fin 0, Fin 0, Fin 0, Fin 0], k_offsetPt0 = [0], k_dpv = [], k_dps = []\<rparr> =
   \<lparr>k_i = 4, k_npt = 1, k_noffset = 1, k_npt3 = 3,
    k_pts = [Fin (1 / 2), Fin (3 / 2), Fin (5 / 2), Fin 0], k_offsetPt0 = [0],
    k_dpv = [], k_dps = []\<rparr>"
  by (simp add: trk_streamline_def to_signed_def funpow.simps
        trk_one_vertex_point [simplified] Let_def)

lemma trk_one_vertex_scan:
  "trk_scan [1, 0x3F800000, 0x40000000, 0x40400000] zoom_half
     \<lparr>k_i = 0, k_npt = 0, k_noffset = 0, k_npt3 = 0,
      k_pts = [Fin 0, Fin 0, Fin 0, Fin 0], k_offsetPt0 = [0], k_dpv = [], k_dps = []\<rparr> =
   \<lparr>k_i = 4, k_npt = 1, k_noffset = 1, k_npt3 = 3,
    k_pts = [Fin (1 / 2), Fin (3 / 2), Fin (5 / 2), Fin 0], k_offsetPt0 = [0],
    k_dpv = [], k_dps = []\<rparr>"
  apply (subst trk_scan.simps, simp add: trk_one_vertex_streamline [simplified])
  apply (subst trk_scan.simps, simp)
  done

lemma replicate_length4:
  "replicate (length [a, b, c, d :: nat]) (Fin 0) = [Fin 0, Fin 0, Fin 0, Fin 0]"
  "replicate (length [a, b, c, d :: nat] div 4) (0 :: 32 word) = [0]"
  by simp_all

text \<open>
  Claim C6 (the code departs from it). The claim: the 1000-byte header with an unset
  matrix followed by the record \<^verbatim>\<open>(count = 1, (1, 2, 3))\<close> decodes, with the identity
  substituted for the matrix and no error, to one streamline of one vertex at
  \<open>(0.5, 1.5, 2.5)\<close>. \<^verbatim>\<open>readTRK\<close> returns normally and the vertex is as claimed, but
  \<^verbatim>\<open>offsetPt0\<close> is \<open>[0]\<close>: the offsets array is allocated with
  \<^verbatim>\<open>i32.length / 4 = 1\<close> slot, the write of the final fence-post entry falls outside
  it and is dropped, and the result has \<^verbatim>\<open>offsetPt0.length - 1 = 0\<close> streamlines.
\<close>

theorem readTRK_one_vertex_offsets:
  "readTRK decompress trk_one_vertex =
     Inr \<lparr>pts = [Fin (1 / 2), Fin (3 / 2), Fin (5 / 2)], offsetPt0 = [0],
          dps = [], dpv = []\<rparr>"
proof -
  let ?body = "[0x01, 0x00, 0x00, 0x00] @ f32_1 @ f32_2 @ f32_3"
  have len: "length ?body mod 4 = 0" by (simp add: f32_bytes)
  have "readTRK decompress (trk_header_plain @ ?body) =
          trk_decode (trk_header_plain @ ?body) 1128354388"
    by (simp add: readTRK_def trk_plain_magic err_bind_def)
  also have "\<dots> = Inr \<lparr>pts = [Fin (1 / 2), Fin (3 / 2), Fin (5 / 2)], offsetPt0 = [0],
                         dps = [], dpv = []\<rparr>"
    apply (simp only: trk_decode_plain trk_one_vertex_words len)
    apply (simp only: Let_def replicate_length4 trk_one_vertex_scan)
    apply simp
    done
  finally show ?thesis by (simp add: trk_one_vertex_def)
qed

subsection \<open>The attribute arrays of readTRK\<close>












subsection \<open>readTRK on a file with a scalar and a property\<close>























subsection \<open>readTRX on an archive with misaligned attributes\<close>




































subsection \<open>readTT\<close>

lemma tt_track_positions: "tt_positions tt_track 16 0 [] 0 = Inr ([0], 3)"
  apply (subst tt_positions.simps, simp add: tt_track_def dv_eval)
  apply (subst tt_positions.simps, simp)
  done

lemma transpose_identity:
  "mat4_transpose
     (map (num_at mat4_identity) [0, 1, 2, 3, 4, 5, 6, 7, 8, 9, 10, 11, 12, 13, 14, 15]) =
   mat4_identity"
  by (simp add: mat4_transpose_def num_at_def mat4_identity_def)

lemma tt_track_records:
  "tt_records tt_track [0] 0
     \<lparr>s_npt = 0, s_pts = [Fin 0, Fin 0, Fin 0], s_offsetPt0 = [0, 0]\<rparr> =
   Inr \<lparr>s_npt = 3, s_pts = [Fin 32, Fin 64, Fin 96], s_offsetPt0 = [0, 0]\<rparr>"
  by (simp add: tt_records.simps tt_deltas.simps tt_track_def dv_eval getInt32_def
        to_signed_def Let_def)

lemma tt_transform_identity:
  "tt_transform mat4_identity 3 0 [Fin 1, Fin 2, Fin 3] = [Fin 1, Fin 2, Fin 3]"
  apply (subst tt_transform.simps, simp add: mat4_identity_def num_at_def js_eval Let_def)
  apply (subst tt_transform.simps, simp)
  done

lemma tt_arrays:
  "replicate 3 (Fin 0) = [Fin 0, Fin 0, Fin 0]"
  "replicate (length [0 :: nat] + 1) (0 :: 32 word) = [0, 0]"
  by (simp_all add: numeral_3_eq_3)

lemma tt_scaled:
  "map (\<lambda>v. js_div v (Fin 32)) (take 3 [Fin 32, Fin 64, Fin 96])
     @ drop 3 [Fin 32, Fin 64, Fin 96] = [Fin 1, Fin 2, Fin 3]"
  by (simp add: js_eval)

lemma parse_tt_one_point:
  "parse_tt mat4_identity \<lparr>ta_length = 16, ta_buffer = tt_track\<rparr> =
     Inr \<lparr>pts = [Fin 1, Fin 2, Fin 3], offsetPt0 = [0, 1]\<rparr>"
  unfolding parse_tt_def
  apply (simp only: Let_def typed_array.simps tt_track_positions err_bind_def sum.case
           prod.case tt_arrays tt_track_records tt_state.simps tt_scaled
           tt_transform_identity)
  apply simp
  done

subsection \<open>The records of a TT track\<close>

lemma tt_positions_layout:
  "tt_positions dv len i pos nv = Inr (qs, n) \<Longrightarrow>
   \<exists>ps. qs = pos @ ps \<and> tt_layout dv len i ps \<and> n = nv + tt_sizes dv ps"
proof (induction dv len i pos nv rule: tt_positions.induct)
  case (1 dv len i pos nvert3)
  show ?case
  proof (cases "i < len")
    case False
    with 1(2) show ?thesis
      by (subst (asm) tt_positions.simps) (simp add: tt_sizes_def)
  next
    case True
    from 1(2) True obtain sz where g: "getUint32 dv i True = Inr sz"
      and r: "tt_positions dv len (i + sz + 13) (pos @ [i]) (nvert3 + sz) = Inr (qs, n)"
      by (subst (asm) tt_positions.simps) (auto simp: err_bind_def split: sum.splits)
    from 1(1) [OF True g r] obtain ps where
      "qs = (pos @ [i]) @ ps" "tt_layout dv len (i + sz + 13) ps"
      "n = nvert3 + sz + tt_sizes dv ps" by blast
    with True g have "qs = pos @ (i # ps) \<and> tt_layout dv len i (i # ps) \<and>
        n = nvert3 + tt_sizes dv (i # ps)"
      by (simp add: tt_sizes_def)
    then show ?thesis by blast
  qed
qed

lemma tt_layout_positions:
  "tt_layout dv len i ps \<Longrightarrow>
   tt_positions dv len i pos nv = Inr (pos @ ps, nv + tt_sizes dv ps)"
proof (induction ps arbitrary: i pos nv)
  case Nil
  then show ?case by (subst tt_positions.simps) (simp add: tt_sizes_def)
next
  case (Cons p ps)
  from Cons.prems obtain sz where p: "p = i" and l: "i < len"
    and g: "getUint32 dv i True = Inr sz" and r: "tt_layout dv len (i + sz + 13) ps"
    by (auto split: sum.splits)
  from Cons.IH [OF r, of "pos @ [i]" "nv + sz"] p l g show ?case
    by (subst tt_positions.simps) (simp add: err_bind_def tt_sizes_def)
qed

lemma tt_positions_iff:
  "tt_positions dv len 0 [] 0 = Inr (ps, n) \<longleftrightarrow> tt_layout dv len 0 ps \<and> n = tt_sizes dv ps"
  using tt_positions_layout [of dv len 0 "[]" 0 ps n] tt_layout_positions [of dv len 0 ps "[]" 0]
  by auto

lemma getInt8_ok: "q < length dv \<Longrightarrow> \<exists>v. getInt8 dv q = Inr v"
  by (simp add: getInt8_def dv_uint_def err_bind_def)

lemma getInt8_short: "length dv \<le> q \<Longrightarrow> getInt8 dv q = Inl RangeError"
  by (simp add: getInt8_def dv_uint_def err_bind_def)

lemma getInt32_ok: "q + 4 \<le> length dv \<Longrightarrow> \<exists>v. getInt32 dv q True = Inr v"
  by (simp add: getInt32_def dv_uint_def err_bind_def)

lemma getInt32_short: "length dv < q + 4 \<Longrightarrow> getInt32 dv q True = Inl RangeError"
  by (simp add: getInt32_def dv_uint_def err_bind_def)

lemma tt_deltas_ok:
  "q + 3 * n \<le> length dv \<Longrightarrow>
   \<exists>st'. tt_deltas dv n q xyz st = Inr st' \<and> s_npt st' = s_npt st + 3 * n"
proof (induction n arbitrary: q xyz st)
  case 0
  then show ?case by (simp add: tt_deltas.simps)
next
  case (Suc n)
  obtain x y z where xyz: "xyz = (x, y, z)" by (cases xyz) auto
  from Suc.prems obtain dx dy dz where
    d: "getInt8 dv q = Inr dx" "getInt8 dv (q + 1) = Inr dy" "getInt8 dv (q + 2) = Inr dz"
    using getInt8_ok [of q dv] getInt8_ok [of "q + 1" dv] getInt8_ok [of "q + 2" dv]
    by auto
  let ?st = "st\<lparr>s_pts := (s_pts st)[s_npt st := Fin (of_int (x + dx)),
                                     s_npt st + 1 := Fin (of_int (y + dy)),
                                     s_npt st + 2 := Fin (of_int (z + dz))],
               s_npt := s_npt st + 3\<rparr>"
  from Suc.prems have "q + 3 + 3 * n \<le> length dv" by simp
  from Suc.IH [OF this, of "(x + dx, y + dy, z + dz)" ?st] obtain st' where
    r: "tt_deltas dv n (q + 3) (x + dx, y + dy, z + dz) ?st = Inr st'"
       "s_npt st' = s_npt ?st + 3 * n" by blast
  have "tt_deltas dv (Suc n) q xyz st = Inr st'"
    using d r(1) by (simp add: xyz tt_deltas.simps err_bind_def Let_def)
  with r(2) show ?case by simp
qed

lemma tt_deltas_short:
  "0 < n \<Longrightarrow> length dv < q + 3 * n \<Longrightarrow> tt_deltas dv n q xyz st = Inl RangeError"
proof (induction n arbitrary: q xyz st)
  case 0
  then show ?case by simp
next
  case (Suc n)
  obtain x y z where xyz: "xyz = (x, y, z)" by (cases xyz) auto
  show ?case
  proof (cases "q + 3 \<le> length dv")
    case True
    then obtain dx dy dz where
      d: "getInt8 dv q = Inr dx" "getInt8 dv (q + 1) = Inr dy" "getInt8 dv (q + 2) = Inr dz"
      using getInt8_ok [of q dv] getInt8_ok [of "q + 1" dv] getInt8_ok [of "q + 2" dv]
      by auto
    from Suc.prems True have n: "0 < n" and "length dv < q + 3 + 3 * n" by auto
    from Suc.IH [OF this] d show ?thesis
      by (simp add: xyz tt_deltas.simps err_bind_def Let_def)
  next
    case False
    then consider "length dv \<le> q" | "q < length dv" "length dv \<le> q + 1"
      | "q + 1 < length dv" "length dv \<le> q + 2" by linarith
    then show ?thesis
    proof cases
      case 1
      then show ?thesis by (simp add: xyz tt_deltas.simps getInt8_short err_bind_def)
    next
      case 2
      from getInt8_ok [OF 2(1)] obtain dx where "getInt8 dv q = Inr dx" by blast
      with 2 show ?thesis by (simp add: xyz tt_deltas.simps getInt8_short err_bind_def)
    next
      case 3
      from 3 have "q < length dv" by simp
      from getInt8_ok [OF this] obtain dx where dx: "getInt8 dv q = Inr dx" by blast
      from getInt8_ok [OF 3(1)] obtain dy where "getInt8 dv (q + 1) = Inr dy" by blast
      with dx 3 show ?thesis by (simp add: xyz tt_deltas.simps getInt8_short err_bind_def)
    qed
  qed
qed

lemma tt_record_ok:
  assumes g: "getUint32 dv p True = Inr (3 * m)" and m: "0 < m"
    and l: "p + 3 * m + 13 \<le> length dv"
  shows "\<exists>st'. tt_records dv [p] k st = Inr st' \<and> s_npt st' = s_npt st + 3 * m"
proof -
  from l m obtain x y z where
    r: "getInt32 dv (p + 4) True = Inr x" "getInt32 dv (p + 8) True = Inr y"
       "getInt32 dv (p + 12) True = Inr z"
    using getInt32_ok [of "p + 4" dv] getInt32_ok [of "p + 8" dv] getInt32_ok [of "p + 12" dv]
    by auto
  let ?st = "st\<lparr>s_offsetPt0 := (s_offsetPt0 st)[k := of_nat (s_npt st div 3)],
               s_pts := (s_pts st)[s_npt st := Fin (of_int x), s_npt st + 1 := Fin (of_int y),
                                   s_npt st + 2 := Fin (of_int z)],
               s_npt := s_npt st + 3\<rparr>"
  from l m have "p + 16 + 3 * (m - 1) \<le> length dv" by (cases m) simp_all
  from tt_deltas_ok [OF this, of "(x, y, z)" ?st] obtain st' where
    d: "tt_deltas dv (m - 1) (p + 16) (x, y, z) ?st = Inr st'"
       "s_npt st' = s_npt ?st + 3 * (m - 1)" by blast
  from m d(2) have "s_npt st' = s_npt st + 3 * m" by (cases m) simp_all
  with g r d(1) show ?thesis
    by (simp add: tt_records.simps err_bind_def Let_def)
qed

lemma tt_record_short:
  assumes g: "getUint32 dv p True = Inr (3 * m)" and m: "0 < m"
    and l: "length dv < p + 3 * m + 13"
  shows "tt_records dv [p] k st = Inl RangeError"
proof (cases "p + 16 \<le> length dv")
  case True
  then obtain x y z where
    r: "getInt32 dv (p + 4) True = Inr x" "getInt32 dv (p + 8) True = Inr y"
       "getInt32 dv (p + 12) True = Inr z"
    using getInt32_ok [of "p + 4" dv] getInt32_ok [of "p + 8" dv] getInt32_ok [of "p + 12" dv]
    by auto
  from l m True have "0 < m - 1" "length dv < p + 16 + 3 * (m - 1)" by (cases m; simp)+
  from tt_deltas_short [OF this] g r show ?thesis
    by (simp add: tt_records.simps err_bind_def Let_def)
next
  case False
  from g have "p + 4 \<le> length dv"
    by (simp add: getUint32_def dv_uint_def split: if_splits)
  with False consider "length dv < p + 8" | "p + 8 \<le> length dv" "length dv < p + 12"
    | "p + 12 \<le> length dv" "length dv < p + 16" by linarith
  then show ?thesis
  proof cases
    case 1
    then have "getInt32 dv (p + 4) True = Inl RangeError" by (simp add: getInt32_short)
    with g show ?thesis by (simp add: tt_records.simps err_bind_def Let_def)
  next
    case 2
    then obtain x where "getInt32 dv (p + 4) True = Inr x"
      using getInt32_ok [of "p + 4" dv] by auto
    moreover from 2 have "getInt32 dv (p + 8) True = Inl RangeError"
      by (simp add: getInt32_short)
    ultimately show ?thesis using g by (simp add: tt_records.simps err_bind_def Let_def)
  next
    case 3
    then obtain x y where "getInt32 dv (p + 4) True = Inr x" "getInt32 dv (p + 8) True = Inr y"
      using getInt32_ok [of "p + 4" dv] getInt32_ok [of "p + 8" dv] by auto
    moreover from 3 have "getInt32 dv (p + 12) True = Inl RangeError"
      by (simp add: getInt32_short)
    ultimately show ?thesis using g by (simp add: tt_records.simps err_bind_def Let_def)
  qed
qed


lemma length_tt_two_records: "length tt_two_records = 35"
  by (simp add: tt_two_records_def)

lemma tt_two_sizes:
  "getUint32 tt_two_records 0 True = Inr 6"
  "getUint32 tt_two_records 19 True = Inr 3"
  by (simp_all add: tt_two_records_def dv_eval)

lemma tt_two_layout: "tt_layout tt_two_records 35 0 [0, 19]"
  by (simp add: tt_two_sizes)

lemma tt_two_total: "tt_sizes tt_two_records [0, 19] = 9"
  by (simp add: tt_sizes_def tt_two_sizes)

lemma tt_two_positions: "tt_positions tt_two_records 35 0 [] 0 = Inr ([0, 19], 9)"
  using tt_layout_positions [OF tt_two_layout, of "[]" 0] by (simp add: tt_two_total)

lemma tt_two_arrays:
  "replicate 9 (Fin 0) = [Fin 0, Fin 0, Fin 0, Fin 0, Fin 0, Fin 0, Fin 0, Fin 0, Fin 0]"
  "replicate (length [0 :: nat, 19] + 1) (0 :: 32 word) = [0, 0, 0]"
  by (simp_all add: eval_nat_numeral)

lemma tt_two_first:
  "getInt32 tt_two_records 4 True = Inr 32"
  "getInt32 tt_two_records 8 True = Inr 64"
  "getInt32 tt_two_records 12 True = Inr 96"
  "getInt8 tt_two_records 16 = Inr 32"
  "getInt8 tt_two_records 17 = Inr 32"
  "getInt8 tt_two_records 18 = Inr (- 32)"
  by (simp_all add: tt_two_records_def dv_eval getInt32_def getInt8_def to_signed_def)

lemma tt_two_second:
  "getInt32 tt_two_records 23 True = Inr (- 32)"
  "getInt32 tt_two_records 27 True = Inr 0"
  "getInt32 tt_two_records 31 True = Inr 32"
  by (simp_all add: tt_two_records_def dv_eval getInt32_def to_signed_def)

lemma tt_two_decoded:
  "tt_records tt_two_records [0, 19] 0
     \<lparr>s_npt = 0,
      s_pts = [Fin 0, Fin 0, Fin 0, Fin 0, Fin 0, Fin 0, Fin 0, Fin 0, Fin 0],
      s_offsetPt0 = [0, 0, 0]\<rparr> =
   Inr \<lparr>s_npt = 9,
        s_pts = [Fin 32, Fin 64, Fin 96, Fin 64, Fin 96, Fin 64, Fin (- 32), Fin 0, Fin 32],
        s_offsetPt0 = [0, 2, 0]\<rparr>"
  by (simp add: tt_records.simps tt_deltas.simps tt_two_sizes tt_two_first tt_two_second
        err_bind_def Let_def)

lemma tt_two_scaled:
  "map (\<lambda>v. js_div v (Fin 32))
     (take 9 [Fin 32, Fin 64, Fin 96, Fin 64, Fin 96, Fin 64, Fin (- 32), Fin 0, Fin 32])
     @ drop 9 [Fin 32, Fin 64, Fin 96, Fin 64, Fin 96, Fin 64, Fin (- 32), Fin 0, Fin 32] =
   [Fin 1, Fin 2, Fin 3, Fin 2, Fin 3, Fin 2, Fin (- 1), Fin 0, Fin 1]"
  by (simp add: js_eval)

lemma tt_two_moved:
  "tt_transform mat4_identity 9 0
     [Fin 1, Fin 2, Fin 3, Fin 2, Fin 3, Fin 2, Fin (- 1), Fin 0, Fin 1] =
   [Fin 1, Fin 2, Fin 3, Fin 2, Fin 3, Fin 2, Fin (- 1), Fin 0, Fin 1]"
  apply (subst tt_transform.simps, simp add: mat4_identity_def num_at_def js_eval Let_def)
  apply (subst tt_transform.simps, simp add: mat4_identity_def num_at_def js_eval Let_def)
  apply (subst tt_transform.simps, simp add: mat4_identity_def num_at_def js_eval Let_def)
  apply (subst tt_transform.simps, simp)
  done

lemma parse_tt_two_records:
  "parse_tt mat4_identity \<lparr>ta_length = 35, ta_buffer = tt_two_records\<rparr> =
     Inr \<lparr>pts = [Fin 1, Fin 2, Fin 3, Fin 2, Fin 3, Fin 2, Fin (- 1), Fin 0, Fin 1],
          offsetPt0 = [0, 2, 3]\<rparr>"
  unfolding parse_tt_def
  apply (simp only: Let_def typed_array.simps tt_two_positions err_bind_def sum.case
           prod.case tt_two_arrays tt_two_decoded tt_state.simps tt_two_scaled
           tt_two_moved)
  apply simp
  done

lemma tt_truncated:
  "getUint32 (take 34 tt_two_records) 19 True = Inr 3"
  "length (take 34 tt_two_records) = 34"
  by (simp_all add: tt_two_records_def dv_eval)

text \<open>
  Claim C8. In \<^verbatim>\<open>readTT\<close> a track record occupies \<open>size + 13\<close> bytes, where \<open>size\<close> is
  the little-endian uint32 at its start. The scan of \<^verbatim>\<open>parse_tt\<close> returns the starts
  \<open>ps\<close> and the total \<open>n\<close> exactly when \<open>ps\<close> are records laid out back to back from
  byte 0, each \<open>size + 13\<close> bytes after the one before, and \<open>n\<close> is the sum of their
  sizes. The decoding of a record of \<open>m\<close> points at \<open>p\<close> (size \<open>3 * m\<close>) reads the bytes up
  to \<open>p + size + 13\<close> and no further: it yields \<open>3 * m\<close> values when the buffer has
  them, and fails when the buffer is shorter. On the track of two records the second
  record is found at byte 19 and the three points are decoded. And a track of a single
  record with size 3 and first point (32, 64, 96), decoded with an identity
  \<^verbatim>\<open>trans_to_mni\<close>, gives exactly one streamline whose single point is (1, 2, 3), every
  coordinate divided by 32.
\<close>

theorem tt_record_stride_and_single_point:
  "(tt_positions dv len 0 [] 0 = Inr (ps, n) \<longleftrightarrow>
      tt_layout dv len 0 ps \<and> n = tt_sizes dv ps) \<and>
   (getUint32 dv p True = Inr (3 * m) \<and> 0 < m \<longrightarrow>
      (p + 3 * m + 13 \<le> length dv \<longrightarrow>
         (\<exists>st'. tt_records dv [p] k st = Inr st' \<and> s_npt st' = s_npt st + 3 * m)) \<and>
      (length dv < p + 3 * m + 13 \<longrightarrow> tt_records dv [p] k st = Inl RangeError)) \<and>
   readTT tt_two_streamlines =
     Inr \<lparr>pts = [Fin 1, Fin 2, Fin 3, Fin 2, Fin 3, Fin 2, Fin (- 1), Fin 0, Fin 1],
          offsetPt0 = [0, 2, 3]\<rparr> \<and>
   readTT tt_one_point = Inr \<lparr>pts = [Fin 1, Fin 2, Fin 3], offsetPt0 = [0, 1]\<rparr>"
proof (intro conjI impI)
  show "tt_positions dv len 0 [] 0 = Inr (ps, n) \<longleftrightarrow>
      tt_layout dv len 0 ps \<and> n = tt_sizes dv ps"
    by (rule tt_positions_iff)
next
  assume "getUint32 dv p True = Inr (3 * m) \<and> 0 < m" "p + 3 * m + 13 \<le> length dv"
  then show "\<exists>st'. tt_records dv [p] k st = Inr st' \<and> s_npt st' = s_npt st + 3 * m"
    by (simp add: tt_record_ok)
next
  assume "getUint32 dv p True = Inr (3 * m) \<and> 0 < m" "length dv < p + 3 * m + 13"
  then show "tt_records dv [p] k st = Inl RangeError"
    by (simp add: tt_record_short)
next
  show "readTT tt_two_streamlines =
     Inr \<lparr>pts = [Fin 1, Fin 2, Fin 3, Fin 2, Fin 3, Fin 2, Fin (- 1), Fin 0, Fin 1],
          offsetPt0 = [0, 2, 3]\<rparr>"
    by (simp add: readTT_def tt_two_streamlines_def transpose_identity [simplified]
          parse_tt_two_records)
next
  show "readTT tt_one_point = Inr \<lparr>pts = [Fin 1, Fin 2, Fin 3], offsetPt0 = [0, 1]\<rparr>"
    by (simp add: readTT_def tt_one_point_def transpose_identity [simplified]
          parse_tt_one_point)
qed

theorem tt_record_stride_and_single_point_witness:
  "tt_layout tt_two_records 35 0 [0, 19] \<and>
   tt_positions tt_two_records 35 0 [] 0 = Inr ([0, 19], 9) \<and>
   getUint32 tt_two_records 0 True = Inr (3 * 2) \<and> 0 + 3 * 2 + 13 \<le> length tt_two_records \<and>
   (\<exists>st'. tt_records tt_two_records [0] 0
            \<lparr>s_npt = 0, s_pts = replicate 9 (Fin 0), s_offsetPt0 = [0, 0, 0]\<rparr> = Inr st' \<and>
          s_npt st' = 6) \<and>
   getUint32 (take 34 tt_two_records) 19 True = Inr (3 * 1) \<and>
   length (take 34 tt_two_records) < 19 + 3 * 1 + 13 \<and>
   tt_records (take 34 tt_two_records) [19] 1
     \<lparr>s_npt = 6, s_pts = replicate 9 (Fin 0), s_offsetPt0 = [0, 0, 0]\<rparr> = Inl RangeError"
proof -
  let ?st = "\<lparr>s_npt = 0, s_pts = replicate 9 (Fin 0), s_offsetPt0 = [0, 0, 0 :: 32 word]\<rparr>"
  let ?st6 = "\<lparr>s_npt = 6, s_pts = replicate 9 (Fin 0), s_offsetPt0 = [0, 0, 0 :: 32 word]\<rparr>"
  note t1 = tt_record_stride_and_single_point [of tt_two_records 35 "[0, 19]" 9 0 2 0 ?st]
  note t2 = tt_record_stride_and_single_point
              [of "take 34 tt_two_records" 34 "[]" 0 19 1 1 ?st6]
  have a: "tt_positions tt_two_records 35 0 [] 0 = Inr ([0, 19], 9)"
    using t1 [THEN conjunct1] by (simp only: tt_two_layout tt_two_total)
  have b: "\<exists>st'. tt_records tt_two_records [0] 0 ?st = Inr st' \<and> s_npt st' = 6"
    using t1 [THEN conjunct2, THEN conjunct1]
    by (simp add: tt_two_sizes length_tt_two_records)
  have c: "tt_records (take 34 tt_two_records) [19] 1 ?st6 = Inl RangeError"
    using t2 [THEN conjunct2, THEN conjunct1]
    by (simp add: tt_truncated)
  from a b c show ?thesis
    by (simp add: tt_two_layout tt_two_sizes length_tt_two_records tt_truncated)
qed

subsection \<open>readVTK with a negative vertex index\<close>

lemma vtk_negative_index_bytes:
  "vtk_negative_index =
     [35, 32, 118, 116, 107, 32, 68, 97, 116, 97, 70, 105, 108, 101, 32, 86, 101, 114,
      115, 105, 111, 110, 32, 51, 46, 48, 10,
      99, 10, 66, 73, 78, 65, 82, 89, 10,
      68, 65, 84, 65, 83, 69, 84, 32, 80, 79, 76, 89, 68, 65, 84, 65, 10,
      80, 79, 73, 78, 84, 83, 32, 49, 32, 102, 108, 111, 97, 116, 10,
      0x3F, 0x80, 0x00, 0x00, 0x40, 0x00, 0x00, 0x00, 0x40, 0x40, 0x00, 0x00, 10,
      76, 73, 78, 69, 83, 32, 49, 32, 50, 10,
      0, 0, 0, 1, 255, 255, 255, 255]"
  by (simp add: vtk_negative_index_def ascii_def)

lemma length_vtk_negative_index: "length vtk_negative_index = 99"
  by (simp add: vtk_negative_index_bytes)

lemmas vtk_readStr_eval = vtk_readStr_def scan_while_takeWhile slice_def trim_def is_space_def
  ascii_def Let_def

lemma vtk_neg_lines:
  "vtk_readStr vtk_negative_index 0 = (ascii ''# vtk DataFile Version 3.0'', 27)"
  "vtk_readStr vtk_negative_index 27 = (ascii ''c'', 29)"
  "vtk_readStr vtk_negative_index 29 = (ascii ''BINARY'', 36)"
  "vtk_readStr vtk_negative_index 36 = (ascii ''DATASET POLYDATA'', 53)"
  "vtk_readStr vtk_negative_index 53 = (ascii ''POINTS 1 float'', 68)"
  "vtk_readStr vtk_negative_index 80 = (ascii ''LINES 1 2'', 91)"
  "vtk_readStr vtk_negative_index 91 = ([0, 0, 0, 1, 255, 255, 255, 255], 100)"
  by (simp_all add: vtk_negative_index_bytes vtk_readStr_eval)

lemma vtk_neg_counts:
  "second_int (ascii ''POINTS 1 float'') = Some 1"
  "second_int (ascii ''LINES 1 2'') = Some 1"
  by (simp_all add: second_int_def ascii_def is_space_def parseInt_eval)

lemma vtk_points_numeral:
  "vtk_points buffer isFloat64 pos (numeral k) =
     err_bind (if isFloat64 then getFloat64 buffer pos False else getFloat32 buffer pos False)
       (\<lambda>v.
     err_bind (vtk_points buffer isFloat64 (pos + (if isFloat64 then 8 else 4)) (pred_numeral k))
       (\<lambda>(vs, pos'). Inr (v # vs, pos')))"
  by (simp add: numeral_eq_Suc vtk_points.simps)

lemma vtk_neg_floats:
  "getFloat32 vtk_negative_index 68 False = Inr (Fin 1)"
  "getFloat32 vtk_negative_index 72 False = Inr (Fin 2)"
  "getFloat32 vtk_negative_index 76 False = Inr (Fin 3)"
  by (simp_all add: vtk_negative_index_bytes getFloat32_def dv_uint_def be_val_def
        err_bind_def f32_of_bits_def Let_def)

lemma vtk_neg_points:
  "vtk_points vtk_negative_index False 68 3 = Inr ([Fin 1, Fin 2, Fin 3], 80)"
  by (simp add: vtk_points_numeral vtk_points.simps vtk_neg_floats err_bind_def)

lemma vtk_neg_ints:
  "getInt32 vtk_negative_index 91 False = Inr 1"
  "getInt32 vtk_negative_index 95 False = Inr (- 1)"
  by (simp_all add: vtk_negative_index_bytes getInt32_def dv_uint_def be_val_def
        err_bind_def to_signed_def)

text \<open>The index \<open>-1\<close> passes the test \<^verbatim>\<open>idx + 2 >= nvert3\<close>: \<open>-3 + 2 < 3\<close>.\<close>

lemma vtk_neg_indices:
  "vtk_indices vtk_negative_index [Fin 1, Fin 2, Fin 3] (Some 3) (Suc 0)
     \<lparr>v_pos = 95, v_npt = 1, v_pts = [], v_offsetPt0 = [0, 1]\<rparr> =
   Inr \<lparr>v_pos = 99, v_npt = 1, v_pts = [NaN, NaN, NaN], v_offsetPt0 = [0, 1]\<rparr>"
  by (simp add: vtk_indices.simps length_vtk_negative_index vtk_neg_ints err_bind_def
        positions_at_def Let_def)

lemma vtk_neg_line:
  "vtk_lines vtk_negative_index [Fin 1, Fin 2, Fin 3] (Some 3) 0 (Suc 0)
     \<lparr>v_pos = 91, v_npt = 0, v_pts = [], v_offsetPt0 = [0, 0]\<rparr> =
   Inr \<lparr>v_pos = 99, v_npt = 1, v_pts = [NaN, NaN, NaN], v_offsetPt0 = [0, 1]\<rparr>"
  by (simp add: vtk_lines.simps length_vtk_negative_index vtk_neg_ints err_bind_def Let_def
        vtk_neg_indices)

lemma vtk_neg_tests:
  "startsWith (ascii ''# vtk DataFile Version 3.0'') (ascii ''# vtk DataFile'')"
  "\<not> startsWith (ascii ''BINARY'') (ascii ''ASCII'')"
  "startsWith (ascii ''BINARY'') (ascii ''BINARY'')"
  "str_includes (ascii ''DATASET POLYDATA'') (ascii ''POLYDATA'')"
  "startsWith (ascii ''POINTS 1 float'') (ascii ''POINTS'')"
  "\<not> str_includes (ascii ''POINTS 1 float'') (ascii ''double'')"
  "str_includes (ascii ''POINTS 1 float'') (ascii ''float'')"
  "startsWith (ascii ''LINES 1 2'') (ascii ''LINES'')"
  "\<not> startsWith [0, 0, 0, 1, 255, 255, 255, 255] (ascii ''OFFSETS'')"
  by (simp_all add: ascii_def startsWith_def)

lemma vtk_neg_offsets: "(replicate 2 (0 :: 32 word))[0 := 0] = [0, 0]"
  by (simp add: numeral_2_eq_2)

text \<open>
  Claim C9 (the code departs from it). The claim: in the standard \<^verbatim>\<open>LINES\<close> branch every
  vertex index outside the point table, a negative one included, is a fatal error, so a
  returned tractogram only holds entries of the point table. \<^verbatim>\<open>readVTK\<close> tests
  \<^verbatim>\<open>idx + 2 >= nvert3\<close> only: on a file with one point and one line whose vertex index
  is \<open>-1\<close> it returns normally, and the vertex of the line is three NaN (the values of
  \<^verbatim>\<open>positions[-3]\<close>, \<^verbatim>\<open>positions[-2]\<close>, \<^verbatim>\<open>positions[-1]\<close>).
\<close>

theorem readVTK_negative_index_accepted:
  "readVTK vtk_negative_index = Inr \<lparr>pts = [NaN, NaN, NaN], offsetPt0 = [0, 1]\<rparr>"
  unfolding readVTK_def
  apply (simp only: Let_def length_vtk_negative_index vtk_neg_lines prod.case vtk_neg_tests
           vtk_neg_counts if_True if_False not_True_eq_False not_False_eq_True)
  apply (simp add: new_array_def err_bind_def jsint_nat_def vtk_neg_points vtk_neg_lines
           vtk_neg_tests vtk_neg_counts vtk_neg_offsets vtk_neg_line [simplified])
  done

theorem readVTK_negative_index_accepted_witness:
  "\<exists>t. readVTK vtk_negative_index = Inr t \<and> pts t = [NaN, NaN, NaN] \<and> offsetPt0 t = [0, 1]"
  using readVTK_negative_index_accepted by simp

end
